theory Spec2Isabelle
  imports Main
begin

section \<open>Messages\<close>

text \<open>
  The scripts thread LangChain messages through a graph. A message carries a content that
  is either a plain string or an array of typed parts; an assistant message may carry
  tool-call requests; a tool message carries the correlation id of the request it answers.
\<close>

text \<open>
  The \<open>image_url\<close> field of a part: LangChain allows the bare string or an object with a
  \<open>url\<close> property. \<open>Url_object None\<close> stands for an object whose \<open>url\<close> is missing or
  is not a string.
\<close>

datatype image_url = Url_string string | Url_object "string option"

datatype content_part = TextPart string | ImageUrlPart image_url

datatype content = Str string | Parts "content_part list"

text \<open>
  A tool-call request. Its \<open>id\<close> and its \<open>type\<close> are optional in LangChain's
  \<open>ToolCall\<close>; the type, when present, is the string \<open>tool_call\<close>.
\<close>

record tool_call =
  name :: string
  args :: string
  call_id :: "string option"
  call_type :: "string option"

datatype message =
    HumanMessage content
  | SystemMessage content
  | AIMessage content "tool_call list option"
  | ToolMessage content string

fun isAIMessage :: "message \<Rightarrow> bool" where
  "isAIMessage (AIMessage c tcs) = True"
| "isAIMessage m = False"

fun tool_calls :: "message \<Rightarrow> tool_call list option" where
  "tool_calls (AIMessage c tcs) = tcs"
| "tool_calls m = None"

fun content_of :: "message \<Rightarrow> content" where
  "content_of (HumanMessage c) = c"
| "content_of (SystemMessage c) = c"
| "content_of (AIMessage c tcs) = c"
| "content_of (ToolMessage c i) = c"

fun tool_call_id :: "message \<Rightarrow> string option" where
  "tool_call_id (ToolMessage c i) = Some i"
| "tool_call_id m = None"

text \<open>JavaScript truthiness of a nullable string: neither \<open>null\<close> nor empty.\<close>

definition truthy :: "string option \<Rightarrow> bool" where
  "truthy v = (case v of None \<Rightarrow> False | Some s \<Rightarrow> s \<noteq> [])"

text \<open>\<open>xs.at(-1)\<close>: the last element, \<open>undefined\<close> on an empty array.\<close>

definition at_last :: "'a list \<Rightarrow> 'a option" where
  "at_last xs = (if xs = [] then None else Some (last xs))"

section \<open>Session state, partial updates and reducers\<close>

text \<open>
  \<open>MessagesState\<close> of the two arithmetic scripts holds the message log only; the state
  of the image-crop script extends it with the two image fields and the approval record.
\<close>

datatype status = pending | approved | rejected

record approval_record =
  status :: status
  feedback :: "string option"

record MessagesState =
  messages :: "message list"

record CropState = MessagesState +
  sourceImageDataUri :: "string option"
  croppedImageDataUri :: "string option"
  approval :: approval_record

text \<open>
  A node returns an object holding some of the state's keys. A field of an update is
  \<open>None\<close> when the node's object has no such key; the value of a nullable key is itself
  an option. The entries under the key \<open>messages\<close> are messages, except in the update of
  the tool-call node of langgraph.ts, which holds whatever \<open>tool.invoke\<close> returned.
\<close>

record 'e MessagesUpdate =
  messages_u :: "'e list option"

record CropUpdate = "message MessagesUpdate" +
  sourceImageDataUri_u :: "string option option"
  croppedImageDataUri_u :: "string option option"
  approval_u :: "approval_record option option"

text \<open>The reducers, as declared in \<open>Annotation.Root\<close>.\<close>

definition messages_reducer :: "message list \<Rightarrow> message list \<Rightarrow> message list" where
  "messages_reducer left right = left @ right"

definition dataUri_reducer :: "string option \<Rightarrow> string option \<Rightarrow> string option" where
  "dataUri_reducer left right = (case right of None \<Rightarrow> None | Some r \<Rightarrow> Some r)"

definition approval_default :: approval_record where
  "approval_default = \<lparr>status = pending, feedback = None\<rparr>"

definition approval_reducer :: "approval_record \<Rightarrow> approval_record option \<Rightarrow> approval_record" where
  "approval_reducer left right = (case right of None \<Rightarrow> approval_default | Some r \<Rightarrow> r)"

text \<open>
  Merging an update into the state, as the graph library does after each node: a key the
  update holds goes through the field's reducer, a key it lacks leaves the field as it is.
\<close>

definition merge_messages ::
  "'a MessagesState_scheme \<Rightarrow> (message, 'b) MessagesUpdate_scheme \<Rightarrow> 'a MessagesState_scheme" where
  "merge_messages s u =
     (case messages_u u of
        None \<Rightarrow> s
      | Some right \<Rightarrow> s\<lparr>messages := messages_reducer (messages s) right\<rparr>)"

definition merge_crop :: "CropState \<Rightarrow> CropUpdate \<Rightarrow> CropState" where
  "merge_crop s u =
     (let s1 = merge_messages s u;
          s2 = (case sourceImageDataUri_u u of
                  None \<Rightarrow> s1
                | Some right \<Rightarrow>
                    s1\<lparr>sourceImageDataUri := dataUri_reducer (sourceImageDataUri s1) right\<rparr>);
          s3 = (case croppedImageDataUri_u u of
                  None \<Rightarrow> s2
                | Some right \<Rightarrow>
                    s2\<lparr>croppedImageDataUri := dataUri_reducer (croppedImageDataUri s2) right\<rparr>)
      in (case approval_u u of
            None \<Rightarrow> s3
          | Some right \<Rightarrow> s3\<lparr>approval := approval_reducer (approval s3) right\<rparr>))"

text \<open>The messages an update contributes: none when it has no \<open>messages\<close> key.\<close>

definition update_messages :: "(message, 'b) MessagesUpdate_scheme \<Rightarrow> message list" where
  "update_messages u = (case messages_u u of None \<Rightarrow> [] | Some ms \<Rightarrow> ms)"

section \<open>The outside world\<close>

text \<open>
  The language model, the tools' bodies and the prebuilt tool node are external. They are
  parameters of the nodes. Every call to one of them is written to a trace, in the order
  the calls are made, and the model's answer may depend on the trace so far. A call that
  throws is a result \<open>Inl\<close>.
\<close>

datatype error =
    TypeError
  | ToolInputParsingException
  | ToolError string
  | ModelInvocationError string
  | ToolNodeError string
  | UnknownNode string

datatype event =
    ModelInvoked "message list"
  | StructuredInvoked "message list"
  | ToolInvoked tool_call
  | ToolNodeInvoked

type_synonym chat_model = "event list \<Rightarrow> message list \<Rightarrow> error + message"

type_synonym structured_model = "event list \<Rightarrow> message list \<Rightarrow> error + (bool \<times> string)"

type_synonym tool_fn = "string \<Rightarrow> error + string"

text \<open>
  What \<open>tool.invoke\<close> returns: a tool message, or the bare output of the tool, which is
  not a message.
\<close>

datatype observation = Entry message | Bare string

text \<open>
  The library's formatting of a tool's output: with a truthy request id the output is
  wrapped in a tool message that carries the id; with an absent or empty id the output is
  returned as it is.
\<close>

definition format_output :: "string option \<Rightarrow> string \<Rightarrow> observation" where
  "format_output toolCallId out =
     (case toolCallId of
        None \<Rightarrow> Bare out
      | Some i \<Rightarrow> if i \<noteq> [] then Entry (ToolMessage (Str out) i) else Bare out)"

text \<open>
  \<open>tool.invoke(toolCall)\<close> of the library, for the tool \<open>add\<close>. A request of type
  \<open>tool_call\<close> is unwrapped: its \<open>args\<close> are validated and passed to the tool's body,
  and the output is formatted with the id of the request. Any other request is taken as
  the tool's input as a whole; the schema of \<open>add\<close> asks for the numbers \<open>a\<close> and \<open>b\<close>,
  which a request does not have, so the validation throws. The body with the validation
  of its arguments is the parameter \<open>f\<close>.
\<close>

definition invoke_tool :: "tool_fn \<Rightarrow> tool_call \<Rightarrow> error + observation" where
  "invoke_tool f toolCall =
     (if call_type toolCall = Some ''tool_call'' then
        (case f (args toolCall) of
           Inl e \<Rightarrow> Inl e
         | Inr out \<Rightarrow> Inr (format_output (call_id toolCall) out))
      else Inl ToolInputParsingException)"

definition END :: string where
  "END = ''__end__''"

section \<open>The arithmetic scripts\<close>

text \<open>
  langgraph.ts and the arithmetic script of calculator.ts share the text of \<open>llmNode\<close>
  and of \<open>shouldContinue\<close>. langgraph.ts writes its own tool-call node over the
  registry \<open>toolsByName\<close>, which holds the one tool \<open>add\<close>; calculator.ts uses the
  prebuilt tool node of the library there.
\<close>

definition toolsByName :: "tool_fn \<Rightarrow> string \<Rightarrow> tool_fn option" where
  "toolsByName add = [''add'' \<mapsto> add]"

definition arithmeticPrompt :: string where
  "arithmeticPrompt =
     ''You are a helpful assistant tasked with performing arithmetic on a set of inputs.''"

definition llmNode ::
  "chat_model \<Rightarrow> MessagesState \<Rightarrow> event list
     \<Rightarrow> error + (message MessagesUpdate \<times> event list)" where
  "llmNode model state tr =
     (let input = SystemMessage (Str arithmeticPrompt) # messages state
      in (case model tr input of
            Inl e \<Rightarrow> Inl e
          | Inr response \<Rightarrow>
              Inr (\<lparr>messages_u = Some [response]\<rparr>, tr @ [ModelInvoked input])))"

text \<open>
  The loop of \<open>toolNode\<close>: looking up an unregistered name gives \<open>undefined\<close>, and calling
  \<open>invoke\<close> on it throws a TypeError; a tool that throws ends the loop with its error.
  What \<open>tool.invoke\<close> returns is pushed to \<open>result\<close> as it is.
\<close>

fun toolLoop ::
  "(string \<Rightarrow> tool_fn option) \<Rightarrow> tool_call list \<Rightarrow> observation list \<Rightarrow> event list
     \<Rightarrow> error + (observation list \<times> event list)" where
  "toolLoop reg [] result tr = Inr (result, tr)"
| "toolLoop reg (toolCall # rest) result tr =
     (case reg (name toolCall) of
        None \<Rightarrow> Inl TypeError
      | Some tool \<Rightarrow>
          (case invoke_tool tool toolCall of
             Inl e \<Rightarrow> Inl e
           | Inr observation \<Rightarrow>
               toolLoop reg rest (result @ [observation]) (tr @ [ToolInvoked toolCall])))"

definition toolNode ::
  "tool_fn \<Rightarrow> MessagesState \<Rightarrow> event list
     \<Rightarrow> error + (observation MessagesUpdate \<times> event list)" where
  "toolNode add state tr =
     (case at_last (messages state) of
        None \<Rightarrow> Inr (\<lparr>messages_u = Some []\<rparr>, tr)
      | Some lastMessage \<Rightarrow>
          if \<not> isAIMessage lastMessage then Inr (\<lparr>messages_u = Some []\<rparr>, tr)
          else
            (case toolLoop (toolsByName add)
                    (case tool_calls lastMessage of None \<Rightarrow> [] | Some tcs \<Rightarrow> tcs) [] tr of
               Inl e \<Rightarrow> Inl e
             | Inr (result, tr') \<Rightarrow> Inr (\<lparr>messages_u = Some result\<rparr>, tr')))"

text \<open>
  \<open>tool_calls?.length\<close> is truthy when the list is there and is not empty.
\<close>

definition has_tool_calls :: "message \<Rightarrow> bool" where
  "has_tool_calls m = (case tool_calls m of None \<Rightarrow> False | Some tcs \<Rightarrow> length tcs \<noteq> 0)"

definition shouldContinue :: "'a MessagesState_scheme \<Rightarrow> string" where
  "shouldContinue state =
     (case at_last (messages state) of
        None \<Rightarrow> END
      | Some lastMessage \<Rightarrow>
          if \<not> isAIMessage lastMessage then END
          else if has_tool_calls lastMessage then ''toolNode''
          else END)"

text \<open>
  The graph of langgraph.ts: START to \<open>llmCall\<close>, the conditional edge of
  \<open>shouldContinue\<close> out of \<open>llmCall\<close>, and the edge from \<open>toolNode\<close> back to \<open>llmCall\<close>.
  A configuration is the next node, the state and the trace; at END a step changes nothing.

  The log of a state holds messages, as \<open>BaseMessage[]\<close> declares. The update of the
  tool-call node fits when each of its entries is a message. A bare output does not: the
  reducer would put a value that is not a message into the log, and what the library does
  with such a log at the next model call is outside the scripts. A step is \<open>None\<close> there,
  and nothing is said about the rest of such a run.
\<close>

fun as_messages :: "observation list \<Rightarrow> message list option" where
  "as_messages [] = Some []"
| "as_messages (Entry m # obs) =
     (case as_messages obs of None \<Rightarrow> None | Some ms \<Rightarrow> Some (m # ms))"
| "as_messages (Bare out # obs) = None"

definition typed_update :: "observation MessagesUpdate \<Rightarrow> message MessagesUpdate option" where
  "typed_update u =
     (case messages_u u of
        None \<Rightarrow> Some \<lparr>messages_u = None\<rparr>
      | Some obs \<Rightarrow>
          (case as_messages obs of
             None \<Rightarrow> None
           | Some ms \<Rightarrow> Some \<lparr>messages_u = Some ms\<rparr>))"

type_synonym config = "string \<times> MessagesState \<times> event list"

definition agent_step :: "chat_model \<Rightarrow> tool_fn \<Rightarrow> config \<Rightarrow> (error + config) option" where
  "agent_step model add c =
     (case c of (node, state, tr) \<Rightarrow>
        if node = END then Some (Inr c)
        else if node = ''llmCall'' then
          (case llmNode model state tr of
             Inl e \<Rightarrow> Some (Inl e)
           | Inr (u, tr') \<Rightarrow>
               (let state' = merge_messages state u
                in Some (Inr (shouldContinue state', state', tr'))))
        else if node = ''toolNode'' then
          (case toolNode add state tr of
             Inl e \<Rightarrow> Some (Inl e)
           | Inr (u, tr') \<Rightarrow>
               (case typed_update u of
                  None \<Rightarrow> None
                | Some u' \<Rightarrow> Some (Inr (''llmCall'', merge_messages state u', tr'))))
        else Some (Inl (UnknownNode node)))"

fun agent_run :: "chat_model \<Rightarrow> tool_fn \<Rightarrow> nat \<Rightarrow> config \<Rightarrow> (error + config) option" where
  "agent_run model add 0 c = Some (Inr c)"
| "agent_run model add (Suc n) c =
     (case agent_run model add n c of
        None \<Rightarrow> None
      | Some (Inl e) \<Rightarrow> Some (Inl e)
      | Some (Inr c') \<Rightarrow> agent_step model add c')"

definition agent_invoke :: "message list \<Rightarrow> config" where
  "agent_invoke input = (''llmCall'', \<lparr>messages = input\<rparr>, [])"

section \<open>The image-crop script\<close>

text \<open>\<open>image_url?.url\<close>, when it is a string: the bare string form has no \<open>url\<close>.\<close>

fun url_of :: "image_url \<Rightarrow> string option" where
  "url_of (Url_string s) = None"
| "url_of (Url_object u) = u"

text \<open>
  The body of the inner loop of \<open>llmNode\<close>: a part of type \<open>image_url\<close> whose url is a
  non-empty string replaces the candidate when there is none yet or when it is longer.
\<close>

definition scan_part :: "content_part \<Rightarrow> string option \<Rightarrow> string option" where
  "scan_part part newSourceImageDataUri =
     (case part of
        TextPart t \<Rightarrow> newSourceImageDataUri
      | ImageUrlPart iu \<Rightarrow>
          (case url_of iu of
             None \<Rightarrow> newSourceImageDataUri
           | Some imageUrl \<Rightarrow>
               if imageUrl \<noteq> [] then
                 (if (case newSourceImageDataUri of
                        None \<Rightarrow> True
                      | Some cur \<Rightarrow> cur = [] \<or> length imageUrl > length cur)
                  then Some imageUrl else newSourceImageDataUri)
               else newSourceImageDataUri))"

definition scan_message :: "message \<Rightarrow> string option \<Rightarrow> string option" where
  "scan_message msg newSourceImageDataUri =
     (case content_of msg of
        Str t \<Rightarrow> newSourceImageDataUri
      | Parts ps \<Rightarrow> fold scan_part ps newSourceImageDataUri)"

definition extractSourceImage :: "CropState \<Rightarrow> string option" where
  "extractSourceImage state = fold scan_message (messages state) (sourceImageDataUri state)"

definition systemPrompt :: "CropState \<Rightarrow> string" where
  "systemPrompt state =
     ''You are a helpful assistant that can analyze images and crop them based on user requests. '' @
     ''Follow this workflow:\<newline>'' @
     ''1. Analyze the original image to understand its content and dimensions\<newline>'' @
     ''2. Determine the appropriate crop area (x, y, width, height) based on the user's requirements\<newline>'' @
     ''3. Use the cropImage tool to perform the crop - you only need to provide the cropArea coordinates'' @
     (case feedback (approval state) of
        None \<Rightarrow> []
      | Some fb \<Rightarrow>
          if fb \<noteq> [] then
            ''\<newline>\<newline>IMPORTANT: Previous crop attempt was rejected with this feedback:\<newline>'' @
            [CHR 0x22] @ fb @ [CHR 0x22] @
            ''\<newline>Please adjust your crop parameters accordingly.''
          else [])"

text \<open>
  The external collaborators of the image-crop script: the model bound to the tools, the
  model with structured output, and the prebuilt tool node invoked with the state.
\<close>

record world =
  modelWithTools :: chat_model
  modelWithStructuredOutput :: structured_model
  toolNodeWithState :: "event list \<Rightarrow> CropState \<Rightarrow> error + message list"

definition crop_llmNode ::
  "world \<Rightarrow> CropState \<Rightarrow> event list \<Rightarrow> error + (CropUpdate \<times> event list)" where
  "crop_llmNode w state tr =
     (let newSourceImageDataUri = extractSourceImage state;
          input = SystemMessage (Str (systemPrompt state)) # messages state
      in (case modelWithTools w tr input of
            Inl e \<Rightarrow> Inl e
          | Inr response \<Rightarrow>
              Inr (\<lparr>messages_u = Some [response],
                    sourceImageDataUri_u = Some newSourceImageDataUri,
                    croppedImageDataUri_u = None,
                    approval_u = Some (Some \<lparr>status = pending, feedback = None\<rparr>)\<rparr>,
                   tr @ [ModelInvoked input])))"

definition approvalPrompt :: string where
  "approvalPrompt =
     ''You are an image crop quality validator. Your job is to compare the original image with the cropped result and determine if the crop is appropriate and high quality.\<newline>'' @
     ''\<newline>'' @
     ''Evaluate the crop based on:\<newline>'' @
     ''- Is the subject/main content properly framed and not cut off?\<newline>'' @
     ''- Does the crop maintain good composition?\<newline>'' @
     ''- Is the aspect ratio reasonable and intentional?\<newline>'' @
     ''- Are important elements preserved in the crop?\<newline>'' @
     ''\<newline>'' @
     ''If approved is true, provide a brief confirmation in feedback.\<newline>'' @
     ''If approved is false, provide specific feedback about what's wrong (e.g., '' @
     [CHR 0x22] @ ''The product is partially cut off on the right side'' @ [CHR 0x22] @
     '' or '' @
     [CHR 0x22] @ ''The crop removes important context from the top of the image'' @ [CHR 0x22] @
     '').''"

definition approverNode ::
  "world \<Rightarrow> CropState \<Rightarrow> event list \<Rightarrow> error + (CropUpdate \<times> event list)" where
  "approverNode w state tr =
     (if \<not> truthy (croppedImageDataUri state) \<or> \<not> truthy (sourceImageDataUri state) then
        Inr (\<lparr>messages_u = None,
              sourceImageDataUri_u = None,
              croppedImageDataUri_u = None,
              approval_u = Some (Some \<lparr>status = rejected,
                                       feedback = Some ''No cropped image was produced''\<rparr>)\<rparr>,
             tr)
      else
        (let input =
               [HumanMessage (Parts
                  [TextPart approvalPrompt,
                   TextPart ''Original image:'',
                   ImageUrlPart (Url_object (sourceImageDataUri state)),
                   TextPart ''Cropped image:'',
                   ImageUrlPart (Url_object (croppedImageDataUri state))])]
         in (case modelWithStructuredOutput w tr input of
               Inl e \<Rightarrow> Inl e
             | Inr (response_approved, response_feedback) \<Rightarrow>
                 Inr (\<lparr>messages_u = None,
                       sourceImageDataUri_u = None,
                       croppedImageDataUri_u = None,
                       approval_u =
                         Some (Some \<lparr>status = (if response_approved then approved else rejected),
                                     feedback = Some response_feedback\<rparr>)\<rparr>,
                      tr @ [StructuredInvoked input]))))"

definition startsWith :: "string \<Rightarrow> string \<Rightarrow> bool" where
  "startsWith s p = (take (length p) s = p)"

text \<open>
  The loop over the tool results: the first message whose content is a string starting
  with \<open>data:image/\<close> gives the cropped image, and the loop breaks there.
\<close>

fun scan_results :: "message list \<Rightarrow> string option \<Rightarrow> string option" where
  "scan_results [] newCroppedImageDataUri = newCroppedImageDataUri"
| "scan_results (msg # rest) newCroppedImageDataUri =
     (case content_of msg of
        Str c \<Rightarrow>
          if startsWith c ''data:image/'' then Some c
          else scan_results rest newCroppedImageDataUri
      | Parts ps \<Rightarrow> scan_results rest newCroppedImageDataUri)"

definition crop_toolNode ::
  "world \<Rightarrow> CropState \<Rightarrow> event list \<Rightarrow> error + (CropUpdate \<times> event list)" where
  "crop_toolNode w state tr =
     (case toolNodeWithState w tr state of
        Inl e \<Rightarrow> Inl e
      | Inr toolResult_messages \<Rightarrow>
          Inr (\<lparr>messages_u = Some toolResult_messages,
                sourceImageDataUri_u = None,
                croppedImageDataUri_u =
                  Some (scan_results toolResult_messages (croppedImageDataUri state)),
                approval_u = None\<rparr>,
               tr @ [ToolNodeInvoked]))"

definition routeAfterLLM :: "'a MessagesState_scheme \<Rightarrow> string" where
  "routeAfterLLM state =
     (case at_last (messages state) of
        None \<Rightarrow> END
      | Some lastMessage \<Rightarrow>
          if \<not> isAIMessage lastMessage then END
          else if has_tool_calls lastMessage then ''toolNode''
          else ''approver'')"

text \<open>A \<open>null\<close> in a template literal prints as the four letters \<open>null\<close>.\<close>

definition template_string :: "string option \<Rightarrow> string" where
  "template_string v = (case v of None \<Rightarrow> ''null'' | Some s \<Rightarrow> s)"

definition addRejectionFeedback :: "CropState \<Rightarrow> CropUpdate" where
  "addRejectionFeedback state =
     \<lparr>messages_u =
        Some [HumanMessage (Str
          (''The crop was rejected. Feedback: '' @ template_string (feedback (approval state)) @
           ''\<newline>\<newline>Please try again with adjusted crop parameters.''))],
      sourceImageDataUri_u = None,
      croppedImageDataUri_u = None,
      approval_u = None\<rparr>"

definition routeAfterApprover :: "CropState \<Rightarrow> string" where
  "routeAfterApprover state =
     (if status (approval state) = approved then END
      else if status (approval state) = rejected then ''addRejectionFeedback''
      else END)"

text \<open>
  The graph of the image-crop script: START to \<open>llmCall\<close>, \<open>routeAfterLLM\<close> out of
  \<open>llmCall\<close>, \<open>toolNode\<close> to \<open>approver\<close>, \<open>routeAfterApprover\<close> out of \<open>approver\<close>, and
  \<open>addRejectionFeedback\<close> back to \<open>llmCall\<close>.
\<close>

type_synonym crop_config = "string \<times> CropState \<times> event list"

definition run_node ::
  "world \<Rightarrow> string \<Rightarrow> CropState \<Rightarrow> event list \<Rightarrow> error + (CropUpdate \<times> event list)" where
  "run_node w node state tr =
     (if node = ''llmCall'' then crop_llmNode w state tr
      else if node = ''toolNode'' then crop_toolNode w state tr
      else if node = ''approver'' then approverNode w state tr
      else if node = ''addRejectionFeedback'' then Inr (addRejectionFeedback state, tr)
      else Inl (UnknownNode node))"

definition next_node :: "string \<Rightarrow> CropState \<Rightarrow> string" where
  "next_node node state' =
     (if node = ''llmCall'' then routeAfterLLM state'
      else if node = ''toolNode'' then ''approver''
      else if node = ''approver'' then routeAfterApprover state'
      else ''llmCall'')"

definition crop_step :: "world \<Rightarrow> crop_config \<Rightarrow> error + crop_config" where
  "crop_step w c =
     (case c of (node, state, tr) \<Rightarrow>
        if node = END then Inr c
        else
          (case run_node w node state tr of
             Inl e \<Rightarrow> Inl e
           | Inr (u, tr') \<Rightarrow>
               (let state' = merge_crop state u in Inr (next_node node state', state', tr'))))"

fun crop_run :: "world \<Rightarrow> nat \<Rightarrow> crop_config \<Rightarrow> error + crop_config" where
  "crop_run w 0 c = Inr c"
| "crop_run w (Suc n) c =
     (case crop_run w n c of
        Inl e \<Rightarrow> Inl e
      | Inr c' \<Rightarrow> crop_step w c')"

definition crop_invoke :: "message list \<Rightarrow> crop_config" where
  "crop_invoke input =
     (''llmCall'',
      \<lparr>messages = input, sourceImageDataUri = None, croppedImageDataUri = None,
       approval = approval_default\<rparr>,
      [])"

section \<open>Notions used by the properties\<close>

text \<open>
  The image urls the extraction of \<open>llmNode\<close> looks at: for every part of type
  \<open>image_url\<close> of every message with an array content, the \<open>url\<close> of its object when
  that is a non-empty string, in the order of the log.
\<close>

fun part_urls :: "content_part \<Rightarrow> string list" where
  "part_urls (ImageUrlPart (Url_object (Some u))) = (if u \<noteq> [] then [u] else [])"
| "part_urls part = []"

fun message_urls :: "message \<Rightarrow> string list" where
  "message_urls msg = (case content_of msg of Str t \<Rightarrow> [] | Parts ps \<Rightarrow> concat (map part_urls ps))"

definition imageUrls :: "message list \<Rightarrow> string list" where
  "imageUrls log = concat (map message_urls log)"

text \<open>
  The replacement test of the loop of \<open>llmNode\<close>, for one url that passed the guards.
\<close>

definition replace_if_longer :: "string \<Rightarrow> string option \<Rightarrow> string option" where
  "replace_if_longer imageUrl cur =
     (if (case cur of None \<Rightarrow> True | Some c \<Rightarrow> c = [] \<or> length imageUrl > length c)
      then Some imageUrl else cur)"

text \<open>The first string of greatest length in a list, if there is any.\<close>

fun longest :: "string list \<Rightarrow> string option" where
  "longest [] = None"
| "longest (x # xs) =
     (case longest xs of
        None \<Rightarrow> Some x
      | Some y \<Rightarrow> if length y \<le> length x then Some x else Some y)"

text \<open>The length of a nullable string, \<open>null\<close> counting as 0.\<close>

definition strlen :: "string option \<Rightarrow> nat" where
  "strlen v = (case v of None \<Rightarrow> 0 | Some s \<Rightarrow> length s)"

text \<open>
  The message log the model-call node has scanned last: the input of the latest model
  invocation of the trace, without the system message that leads it.
\<close>

definition seen_log :: "event list \<Rightarrow> message list" where
  "seen_log tr =
     fold (\<lambda>e acc. case e of ModelInvoked input \<Rightarrow> tl input | _ \<Rightarrow> acc) tr []"

text \<open>
  Correlation, in the words of the specification: every tool-call request of the log is
  matched by exactly one tool-result entry that carries its id.
\<close>

definition request_ids :: "message list \<Rightarrow> string list" where
  "request_ids log =
     concat (map (\<lambda>m. case tool_calls m of
                        None \<Rightarrow> []
                      | Some tcs \<Rightarrow> concat (map (\<lambda>tc. case call_id tc of
                                                        None \<Rightarrow> []
                                                      | Some i \<Rightarrow> [i]) tcs)) log)"

definition matched_once :: "message list \<Rightarrow> string \<Rightarrow> bool" where
  "matched_once log x = (length (filter (\<lambda>m. tool_call_id m = Some x) log) = 1)"

definition correlated :: "message list \<Rightarrow> bool" where
  "correlated log = list_all (matched_once log) (request_ids log)"

text \<open>
  What the tool-call node of langgraph.ts owes to one request: the request names the
  registered tool \<open>add\<close> and has the type \<open>tool_call\<close>, the tool returns normally on its
  arguments, and the entry is the tool's output, formatted with the id of the request.
\<close>

definition answers :: "tool_fn \<Rightarrow> tool_call \<Rightarrow> observation \<Rightarrow> bool" where
  "answers add tc ob =
     (name tc = ''add'' \<and> call_type tc = Some ''tool_call'' \<and>
      (case add (args tc) of
         Inl e \<Rightarrow> False
       | Inr out \<Rightarrow> ob = format_output (call_id tc) out))"

definition succeeds :: "tool_fn \<Rightarrow> tool_call \<Rightarrow> bool" where
  "succeeds add tc =
     (name tc = ''add'' \<and> call_type tc = Some ''tool_call'' \<and>
      (case add (args tc) of Inl e \<Rightarrow> False | Inr out \<Rightarrow> True))"

text \<open>The correlation id an entry of the tool-call node's update carries, if any.\<close>

fun observed_id :: "observation \<Rightarrow> string option" where
  "observed_id (Entry m) = tool_call_id m"
| "observed_id (Bare out) = None"

text \<open>The id a request is answered under: its own id when truthy, none otherwise.\<close>

definition answered_id :: "tool_call \<Rightarrow> string option" where
  "answered_id tc = (if truthy (call_id tc) then call_id tc else None)"

text \<open>The number of tool-result entries of a log that carry the id \<open>x\<close>.\<close>

definition results_with :: "string \<Rightarrow> message list \<Rightarrow> nat" where
  "results_with x log = length (filter (\<lambda>m. tool_call_id m = Some x) log)"

text \<open>The number of requests that carry the id \<open>x\<close>.\<close>

definition requests_with :: "string \<Rightarrow> tool_call list \<Rightarrow> nat" where
  "requests_with x tcs = length (filter (\<lambda>tc. call_id tc = Some x) tcs)"

section \<open>Sample collaborators and inputs\<close>

text \<open>Deterministic stand-ins for the model and the tools, and the inputs of the scripts.\<close>

definition add_stub :: tool_fn where
  "add_stub = (\<lambda>a. Inr ''7'')"

definition add_request :: "string \<Rightarrow> tool_call" where
  "add_request i =
     \<lparr>name = ''add'', args = ''{a: 3, b: 4}'', call_id = Some i, call_type = Some ''tool_call''\<rparr>"

text \<open>A tool body that rejects every input but the one of the sample request.\<close>

definition strict_add :: tool_fn where
  "strict_add =
     (\<lambda>a. if a = ''{a: 3, b: 4}'' then Inr ''7''
          else Inl (ToolError ''Received tool input did not match expected schema''))"

definition bad_add_request :: tool_call where
  "bad_add_request =
     \<lparr>name = ''add'', args = ''{a: 3}'', call_id = Some ''call_3'',
      call_type = Some ''tool_call''\<rparr>"

definition sqrt_request :: tool_call where
  "sqrt_request =
     \<lparr>name = ''sqrt'', args = ''{value: 16}'', call_id = Some ''call_2'',
      call_type = Some ''tool_call''\<rparr>"

text \<open>A model that asks twice for \<open>add\<close> under one id, then answers in plain text.\<close>

definition repeating_model :: chat_model where
  "repeating_model =
     (\<lambda>tr input.
        if tr = [] then Inr (AIMessage (Str []) (Some [add_request ''X'', add_request ''X'']))
        else Inr (AIMessage (Str ''7'') None))"

definition add_input :: "message list" where
  "add_input = [HumanMessage (Str ''Add 3 and 4.'')]"

definition kettle_uri :: string where
  "kettle_uri = ''data:image/webp;base64,UklGRg==''"

definition crop_input :: "message list" where
  "crop_input =
     [HumanMessage (Parts
        [TextPart ''This is a product image. Crop it to a 9:16 ratio so that the product is not cropped. '',
         ImageUrlPart (Url_object (Some kettle_uri))])]"

definition crop_request :: tool_call where
  "crop_request =
     \<lparr>name = ''cropImage'', args = ''{cropArea: {x: 0, y: 0, width: 9, height: 16}}'',
      call_id = Some ''call_1'', call_type = Some ''tool_call''\<rparr>"

definition crop_reply :: message where
  "crop_reply = AIMessage (Str []) (Some [crop_request])"

text \<open>
  A world whose model always asks for a crop, whose evaluation always rejects, and whose
  tool node returns one cropped image.
\<close>

definition sample_world :: world where
  "sample_world =
     \<lparr>modelWithTools = (\<lambda>tr input. Inr crop_reply),
      modelWithStructuredOutput = (\<lambda>tr input. Inr (False, ''subject cut off'')),
      toolNodeWithState = (\<lambda>tr state. Inr [ToolMessage (Str ''data:image/webp;base64,UklG'') ''call_1''])\<rparr>"

text \<open>A world in which every external call fails.\<close>

definition offline_world :: world where
  "offline_world =
     \<lparr>modelWithTools = (\<lambda>tr input. Inl (ModelInvocationError ''offline'')),
      modelWithStructuredOutput = (\<lambda>tr input. Inl (ModelInvocationError ''offline'')),
      toolNodeWithState = (\<lambda>tr state. Inl (ToolNodeError ''offline''))\<rparr>"

definition crop_state0 :: CropState where
  "crop_state0 =
     \<lparr>messages = crop_input, sourceImageDataUri = None, croppedImageDataUri = None,
      approval = approval_default\<rparr>"

text \<open>The state of a retry: a crop was made and rejected, and the feedback was injected.\<close>

definition retry_state :: CropState where
  "retry_state =
     \<lparr>messages = crop_input @ [crop_reply,
         ToolMessage (Str ''data:image/webp;base64,UklG'') ''call_1'',
         HumanMessage (Str ''retry'')],
      sourceImageDataUri = Some kettle_uri,
      croppedImageDataUri = Some ''data:image/webp;base64,UklG'',
      approval = \<lparr>status = rejected, feedback = Some ''subject cut off''\<rparr>\<rparr>"

section \<open>Auxiliary facts\<close>

lemma messages_merge_messages:
  "messages (merge_messages s u) = messages s @ update_messages u"
  by (simp add: merge_messages_def update_messages_def messages_reducer_def split: option.splits)

lemma messages_merge_crop:
  "messages (merge_crop s u) = messages s @ update_messages u"
  by (simp add: merge_crop_def Let_def messages_merge_messages split: option.splits)

lemma foldl_merge_messages:
  "messages (foldl merge_messages s us) = messages s @ concat (map update_messages us)"
  by (induction us arbitrary: s) (simp_all add: messages_merge_messages)

lemma foldl_merge_crop:
  "messages (foldl merge_crop s us) = messages s @ concat (map update_messages us)"
  by (induction us arbitrary: s) (simp_all add: messages_merge_crop)

lemma llmNode_Inr:
  "llmNode model s tr = Inr (u, tr') \<Longrightarrow>
     \<exists>response. model tr (SystemMessage (Str arithmeticPrompt) # messages s) = Inr response
        \<and> u = \<lparr>messages_u = Some [response]\<rparr>
        \<and> tr' = tr @ [ModelInvoked (SystemMessage (Str arithmeticPrompt) # messages s)]"
  by (cases "model tr (SystemMessage (Str arithmeticPrompt) # messages s)")
     (auto simp: llmNode_def Let_def)

lemma crop_llmNode_Inr:
  "crop_llmNode w cs tr = Inr (cu, tr') \<Longrightarrow>
     \<exists>response.
        modelWithTools w tr (SystemMessage (Str (systemPrompt cs)) # messages cs) = Inr response
        \<and> cu = \<lparr>messages_u = Some [response],
                sourceImageDataUri_u = Some (extractSourceImage cs),
                croppedImageDataUri_u = None,
                approval_u = Some (Some \<lparr>status = pending, feedback = None\<rparr>)\<rparr>
        \<and> tr' = tr @ [ModelInvoked (SystemMessage (Str (systemPrompt cs)) # messages cs)]"
  by (cases "modelWithTools w tr (SystemMessage (Str (systemPrompt cs)) # messages cs)")
     (auto simp: crop_llmNode_def Let_def)

lemma merge_crop_llm:
  "merge_crop cs \<lparr>messages_u = Some ms, sourceImageDataUri_u = Some v,
                  croppedImageDataUri_u = None, approval_u = Some (Some a)\<rparr>
     = cs\<lparr>messages := messages cs @ ms, sourceImageDataUri := v, approval := a\<rparr>"
  by (simp add: merge_crop_def merge_messages_def messages_reducer_def dataUri_reducer_def
      approval_reducer_def Let_def split: option.split)

lemma approverNode_Inr:
  "approverNode w s tr = Inr (u, tr') \<Longrightarrow>
     \<exists>a. u = \<lparr>messages_u = None, sourceImageDataUri_u = None, croppedImageDataUri_u = None,
              approval_u = Some (Some a)\<rparr>
        \<and> (status a = approved \<or> status a = rejected)"
  by (cases "modelWithStructuredOutput w tr
        [HumanMessage (Parts
           [TextPart approvalPrompt, TextPart ''Original image:'',
            ImageUrlPart (Url_object (sourceImageDataUri s)), TextPart ''Cropped image:'',
            ImageUrlPart (Url_object (croppedImageDataUri s))])]")
     (auto simp: approverNode_def Let_def split: if_splits)

lemma crop_toolNode_Inr:
  "crop_toolNode w s tr = Inr (u, tr') \<Longrightarrow>
     \<exists>ms. toolNodeWithState w tr s = Inr ms
        \<and> u = \<lparr>messages_u = Some ms, sourceImageDataUri_u = None,
               croppedImageDataUri_u = Some (scan_results ms (croppedImageDataUri s)),
               approval_u = None\<rparr>
        \<and> tr' = tr @ [ToolNodeInvoked]"
  by (cases "toolNodeWithState w tr s") (auto simp: crop_toolNode_def)

lemma approval_merge_crop:
  "approval (merge_crop s u) =
     (case approval_u u of None \<Rightarrow> approval s | Some right \<Rightarrow> approval_reducer (approval s) right)"
  by (simp add: merge_crop_def merge_messages_def Let_def split: option.split)

lemma source_merge_crop:
  "sourceImageDataUri (merge_crop s u) =
     (case sourceImageDataUri_u u of None \<Rightarrow> sourceImageDataUri s | Some right \<Rightarrow> right)"
  by (simp add: merge_crop_def merge_messages_def dataUri_reducer_def Let_def split: option.split)

lemma toolLoop_Cons:
  "toolLoop (toolsByName add) (tc # rest) result tr =
     (if name tc = ''add'' then
        (if call_type tc = Some ''tool_call'' then
           (case add (args tc) of
              Inl e \<Rightarrow> Inl e
            | Inr out \<Rightarrow>
                toolLoop (toolsByName add) rest (result @ [format_output (call_id tc) out])
                  (tr @ [ToolInvoked tc]))
         else Inl ToolInputParsingException)
      else Inl TypeError)"
  by (simp add: toolsByName_def invoke_tool_def split: sum.splits)

lemma toolLoop_Inr:
  "toolLoop (toolsByName add) tcs result tr = Inr (r, tr') \<Longrightarrow>
     \<exists>obs. r = result @ obs \<and> tr' = tr @ map ToolInvoked tcs \<and> list_all2 (answers add) tcs obs"
proof (induction tcs arbitrary: result tr)
  case Nil
  then show ?case by simp
next
  case (Cons tc tcs)
  from Cons.prems obtain out where n: "name tc = ''add''"
    and t: "call_type tc = Some ''tool_call''" and o: "add (args tc) = Inr out"
    and rest: "toolLoop (toolsByName add) tcs (result @ [format_output (call_id tc) out])
                 (tr @ [ToolInvoked tc]) = Inr (r, tr')"
    by (auto simp: toolLoop_Cons simp del: toolLoop.simps(2) split: if_splits sum.splits)
  from Cons.IH [OF rest] obtain obs where
    "r = (result @ [format_output (call_id tc) out]) @ obs"
    "tr' = (tr @ [ToolInvoked tc]) @ map ToolInvoked tcs"
    "list_all2 (answers add) tcs obs" by blast
  with n t o have "r = result @ (format_output (call_id tc) out # obs)
      \<and> tr' = tr @ map ToolInvoked (tc # tcs)
      \<and> list_all2 (answers add) (tc # tcs) (format_output (call_id tc) out # obs)"
    by (simp add: answers_def)
  then show ?case by blast
qed

lemma toolLoop_succeeds:
  "list_all (succeeds add) tcs \<Longrightarrow> \<exists>r tr'. toolLoop (toolsByName add) tcs result tr = Inr (r, tr')"
proof (induction tcs arbitrary: result tr)
  case Nil
  then show ?case by simp
next
  case (Cons tc tcs)
  then show ?case
    by (auto simp: succeeds_def toolLoop_Cons simp del: toolLoop.simps(2) split: sum.splits)
qed

lemma toolLoop_fails:
  "\<not> list_all (succeeds add) tcs \<Longrightarrow> \<exists>e. toolLoop (toolsByName add) tcs result tr = Inl e"
proof (induction tcs arbitrary: result tr)
  case Nil
  then show ?case by simp
next
  case (Cons tc tcs)
  then show ?case
    by (auto simp: succeeds_def toolLoop_Cons simp del: toolLoop.simps(2) split: sum.splits)
qed

lemma toolLoop_Inl:
  "toolLoop (toolsByName add) tcs result tr = Inl e \<Longrightarrow>
     (e = TypeError \<and> (\<exists>tc \<in> set tcs. name tc \<noteq> ''add''))
     \<or> (e = ToolInputParsingException
          \<and> (\<exists>tc \<in> set tcs. name tc = ''add'' \<and> call_type tc \<noteq> Some ''tool_call''))
     \<or> (\<exists>tc \<in> set tcs. add (args tc) = Inl e)"
proof (induction tcs arbitrary: result tr)
  case Nil
  then show ?case by simp
next
  case (Cons tc tcs)
  show ?case
  proof (cases "name tc = ''add''")
    case False
    with Cons.prems show ?thesis by (simp add: toolLoop_Cons del: toolLoop.simps(2))
  next
    case n: True
    show ?thesis
    proof (cases "call_type tc = Some ''tool_call''")
      case False
      with n Cons.prems show ?thesis by (simp add: toolLoop_Cons del: toolLoop.simps(2))
    next
      case t: True
      show ?thesis
      proof (cases "add (args tc)")
        case (Inl e')
        with n t Cons.prems show ?thesis by (simp add: toolLoop_Cons del: toolLoop.simps(2))
      next
        case (Inr out)
        with n t Cons.prems have
          "toolLoop (toolsByName add) tcs (result @ [format_output (call_id tc) out])
             (tr @ [ToolInvoked tc]) = Inl e"
          by (simp add: toolLoop_Cons del: toolLoop.simps(2))
        from Cons.IH [OF this] show ?thesis by auto
      qed
    qed
  qed
qed

lemma toolNode_AI:
  "at_last (messages s) = Some (AIMessage c (Some tcs)) \<Longrightarrow>
     toolNode add s tr =
       (case toolLoop (toolsByName add) tcs [] tr of
          Inl e \<Rightarrow> Inl e
        | Inr (result, tr') \<Rightarrow> Inr (\<lparr>messages_u = Some result\<rparr>, tr'))"
  by (simp add: toolNode_def)

lemma answers_observed_id:
  "list_all2 (answers add) tcs obs \<Longrightarrow> map observed_id obs = map answered_id tcs"
  by (induction rule: list_all2_induct)
     (auto simp: answers_def answered_id_def format_output_def truthy_def
        split: sum.splits option.splits)

lemma as_messages_Some:
  "as_messages obs = Some ms \<Longrightarrow> obs = map Entry ms"
proof (induction obs arbitrary: ms)
  case Nil
  then show ?case by simp
next
  case (Cons ob obs)
  then show ?case by (cases ob) (auto split: option.splits)
qed

lemma answers_entries_ids:
  "list_all2 (answers add) tcs (map Entry ms) \<Longrightarrow> map tool_call_id ms = map call_id tcs"
proof (induction tcs arbitrary: ms)
  case Nil
  then show ?case by simp
next
  case (Cons tc tcs)
  then obtain m ms' where ms: "ms = m # ms'"
    and a: "answers add tc (Entry m)" and r: "list_all2 (answers add) tcs (map Entry ms')"
    by (cases ms) auto
  from a have "tool_call_id m = call_id tc"
    by (auto simp: answers_def format_output_def split: sum.splits option.splits if_splits)
  with Cons.IH [OF r] ms show ?case by simp
qed

lemma count_map:
  "length (filter (\<lambda>y. y = v) (map f xs)) = length (filter (\<lambda>x. f x = v) xs)"
  by (induction xs) auto

lemma results_with_ids:
  assumes "map tool_call_id ms = map call_id tcs"
  shows "results_with x ms = requests_with x tcs"
proof -
  have "results_with x ms = length (filter (\<lambda>y. y = Some x) (map tool_call_id ms))"
    by (simp only: results_with_def count_map)
  also have "\<dots> = length (filter (\<lambda>y. y = Some x) (map call_id tcs))"
    by (simp only: assms)
  also have "\<dots> = requests_with x tcs"
    by (simp only: requests_with_def count_map)
  finally show ?thesis .
qed

lemma results_with_append:
  "results_with x (log @ ms) = results_with x log + results_with x ms"
  by (simp add: results_with_def)

lemma agent_step_toolNode:
  "agent_step model add (''toolNode'', s, tr) =
     (case toolNode add s tr of
        Inl e \<Rightarrow> Some (Inl e)
      | Inr (u, tr') \<Rightarrow>
          (case typed_update u of
             None \<Rightarrow> None
           | Some u' \<Rightarrow> Some (Inr (''llmCall'', merge_messages s u', tr'))))"
  by (simp add: agent_step_def END_def)

lemma replace_if_longer_None: "replace_if_longer x None = Some x"
  by (simp add: replace_if_longer_def)

lemma replace_if_longer_Some:
  "replace_if_longer x (Some c) = (if c = [] \<or> length c < length x then Some x else Some c)"
  by (simp add: replace_if_longer_def)

lemma scan_part_fold: "scan_part part cur = fold replace_if_longer (part_urls part) cur"
proof (cases part)
  case (TextPart t)
  then show ?thesis by (simp add: scan_part_def)
next
  case (ImageUrlPart iu)
  then show ?thesis
    by (cases iu)
       (auto simp: scan_part_def replace_if_longer_None replace_if_longer_Some
          split: option.splits)
qed

lemma fold_scan_part:
  "fold scan_part ps cur = fold replace_if_longer (concat (map part_urls ps)) cur"
  by (induction ps arbitrary: cur) (simp_all add: scan_part_fold)

lemma scan_message_fold:
  "scan_message msg cur = fold replace_if_longer (message_urls msg) cur"
  by (simp add: scan_message_def fold_scan_part split: content.splits)

lemma fold_scan_message:
  "fold scan_message ms cur = fold replace_if_longer (imageUrls ms) cur"
  by (induction ms arbitrary: cur) (simp_all add: imageUrls_def scan_message_fold del: message_urls.simps)

lemma part_urls_nonempty: "u \<in> set (part_urls part) \<Longrightarrow> u \<noteq> []"
  by (induction part rule: part_urls.induct) (auto split: if_splits)

lemma imageUrls_nonempty: "u \<in> set (imageUrls ms) \<Longrightarrow> u \<noteq> []"
  by (auto simp: imageUrls_def dest: part_urls_nonempty split: content.splits)

lemma longest_None: "longest us = None \<longleftrightarrow> us = []"
  by (induction us) (auto split: option.splits)

lemma longest_Some:
  "longest us = Some y \<Longrightarrow> y \<in> set us \<and> (\<forall>x \<in> set us. length x \<le> length y)"
proof (induction us arbitrary: y)
  case Nil
  then show ?case by simp
next
  case (Cons x xs)
  show ?case
  proof (cases "longest xs")
    case None
    with Cons.prems show ?thesis by (simp add: longest_None)
  next
    case (Some z)
    from Cons.IH [OF Some] Cons.prems Some show ?thesis
      by (auto split: if_splits)
  qed
qed

lemma fold_replace_longest:
  "\<forall>x \<in> set us. x \<noteq> [] \<Longrightarrow>
     fold replace_if_longer us cur =
       (case longest us of
          None \<Rightarrow> cur
        | Some y \<Rightarrow> if truthy cur \<and> length y \<le> strlen cur then cur else Some y)"
proof (induction us arbitrary: cur)
  case Nil
  then show ?case by simp
next
  case (Cons x xs)
  then have IH: "fold replace_if_longer xs (replace_if_longer x cur) =
       (case longest xs of
          None \<Rightarrow> replace_if_longer x cur
        | Some y \<Rightarrow>
            if truthy (replace_if_longer x cur) \<and> length y \<le> strlen (replace_if_longer x cur)
            then replace_if_longer x cur else Some y)"
    and x: "x \<noteq> []" by simp_all
  show ?case
  proof (cases "longest xs")
    case None
    with IH x show ?thesis
      by (cases cur)
         (auto simp: replace_if_longer_None replace_if_longer_Some truthy_def strlen_def)
  next
    case (Some y)
    with IH x show ?thesis
      by (cases cur)
         (auto simp: replace_if_longer_None replace_if_longer_Some truthy_def strlen_def)
  qed
qed

lemma fold_replace_None:
  "\<forall>x \<in> set us. x \<noteq> [] \<Longrightarrow> fold replace_if_longer us None = longest us"
  by (simp add: fold_replace_longest truthy_def split: option.splits)

lemma fold_replace_rescan:
  assumes "\<forall>x \<in> set (us @ vs). x \<noteq> []"
  shows "fold replace_if_longer (us @ vs) (longest us) = longest (us @ vs)"
proof -
  from assms have u: "\<forall>x \<in> set us. x \<noteq> []" by simp
  have "fold replace_if_longer us (longest us) = longest us"
  proof (cases "longest us")
    case None
    then show ?thesis by (simp add: longest_None)
  next
    case (Some y)
    with longest_Some [OF Some] u show ?thesis
      by (simp add: fold_replace_longest truthy_def strlen_def)
  qed
  then have "fold replace_if_longer (us @ vs) (longest us)
      = fold replace_if_longer vs (fold replace_if_longer us None)"
    by (simp add: fold_replace_None [OF u])
  also have "\<dots> = fold replace_if_longer (us @ vs) None" by simp
  also have "\<dots> = longest (us @ vs)" by (rule fold_replace_None [OF assms])
  finally show ?thesis .
qed

lemma extract_rescan:
  assumes "messages s = seen @ rest" and "sourceImageDataUri s = longest (imageUrls seen)"
  shows "extractSourceImage s = longest (imageUrls (messages s))"
proof -
  have i: "imageUrls (seen @ rest) = imageUrls seen @ imageUrls rest"
    by (simp add: imageUrls_def)
  have "\<forall>x \<in> set (imageUrls seen @ imageUrls rest). x \<noteq> []"
    using imageUrls_nonempty by auto
  from fold_replace_rescan [OF this] show ?thesis
    by (simp add: extractSourceImage_def fold_scan_message assms i)
qed

lemma strlen_replace: "strlen cur \<le> strlen (replace_if_longer u cur)"
  by (cases cur) (auto simp: replace_if_longer_None replace_if_longer_Some strlen_def)

lemma strlen_fold_replace: "strlen cur \<le> strlen (fold replace_if_longer us cur)"
proof (induction us arbitrary: cur)
  case Nil
  then show ?case by simp
next
  case (Cons u us)
  have "strlen cur \<le> strlen (replace_if_longer u cur)" by (rule strlen_replace)
  also have "\<dots> \<le> strlen (fold replace_if_longer us (replace_if_longer u cur))"
    by (rule Cons.IH)
  finally show ?case by simp
qed

lemma strlen_extract: "strlen (sourceImageDataUri s) \<le> strlen (extractSourceImage s)"
  by (simp add: extractSourceImage_def fold_scan_message strlen_fold_replace)

lemma seen_log_model: "seen_log (tr @ [ModelInvoked (x # ms)]) = ms"
  by (simp add: seen_log_def)

lemma seen_log_toolNode: "seen_log (tr @ [ToolNodeInvoked]) = seen_log tr"
  by (simp add: seen_log_def)

lemma seen_log_structured: "seen_log (tr @ [StructuredInvoked i]) = seen_log tr"
  by (simp add: seen_log_def)

lemma approverNode_trace:
  "approverNode w s tr = Inr (u, tr') \<Longrightarrow> seen_log tr' = seen_log tr"
  by (cases "modelWithStructuredOutput w tr
        [HumanMessage (Parts
           [TextPart approvalPrompt, TextPart ''Original image:'',
            ImageUrlPart (Url_object (sourceImageDataUri s)), TextPart ''Cropped image:'',
            ImageUrlPart (Url_object (croppedImageDataUri s))])]")
     (auto simp: approverNode_def Let_def seen_log_structured split: if_splits)

lemma crop_step_END: "crop_step w (END, s, tr) = Inr (END, s, tr)"
  by (simp add: crop_step_def)

lemma crop_step_Inr:
  "crop_step w (node, s, tr) = Inr (node', s', tr') \<Longrightarrow> node \<noteq> END \<Longrightarrow>
     \<exists>u. run_node w node s tr = Inr (u, tr') \<and> s' = merge_crop s u"
  by (cases "run_node w node s tr") (auto simp: crop_step_def Let_def)

text \<open>What one node does to the log, the source image and the scanned log.\<close>

lemma run_node_effect:
  assumes "run_node w node s tr = Inr (u, tr')"
  shows "(node = ''llmCall'' \<and> sourceImageDataUri (merge_crop s u) = extractSourceImage s
            \<and> seen_log tr' = messages s)
       \<or> (node \<noteq> ''llmCall'' \<and> sourceImageDataUri (merge_crop s u) = sourceImageDataUri s
            \<and> seen_log tr' = seen_log tr)"
proof (cases "node = ''llmCall''")
  case True
  with assms have "crop_llmNode w s tr = Inr (u, tr')" by (simp add: run_node_def)
  from crop_llmNode_Inr [OF this] True show ?thesis
    by (auto simp: source_merge_crop seen_log_model)
next
  case False
  note nl = this
  show ?thesis
  proof (cases "node = ''toolNode''")
    case True
    with assms have "crop_toolNode w s tr = Inr (u, tr')" by (simp add: run_node_def)
    from crop_toolNode_Inr [OF this] nl show ?thesis
      by (auto simp: source_merge_crop seen_log_toolNode)
  next
    case False
    note nt = this
    show ?thesis
    proof (cases "node = ''approver''")
      case True
      with assms have a: "approverNode w s tr = Inr (u, tr')" by (simp add: run_node_def)
      from approverNode_Inr [OF a] approverNode_trace [OF a] nl show ?thesis
        by (auto simp: source_merge_crop)
    next
      case False
      with nl nt assms have "u = addRejectionFeedback s \<and> tr' = tr"
        by (simp add: run_node_def split: if_splits)
      with nl show ?thesis by (simp add: source_merge_crop addRejectionFeedback_def)
    qed
  qed
qed

lemma crop_step_strlen:
  assumes "crop_step w (node, s, tr) = Inr (node', s', tr')"
  shows "strlen (sourceImageDataUri s) \<le> strlen (sourceImageDataUri s')"
proof (cases "node = END")
  case True
  with assms show ?thesis by (simp add: crop_step_END)
next
  case False
  from crop_step_Inr [OF assms False] obtain u where
    r: "run_node w node s tr = Inr (u, tr')" and s': "s' = merge_crop s u" by blast
  from run_node_effect [OF r] show ?thesis
    unfolding s' using strlen_extract [of s] by auto
qed

lemma crop_step_inv:
  assumes st: "crop_step w (node, s, tr) = Inr (node', s', tr')"
    and pre: "messages s = seen_log tr @ rest"
    and src: "sourceImageDataUri s = longest (imageUrls (seen_log tr))"
  shows "(\<exists>rest'. messages s' = seen_log tr' @ rest')
       \<and> sourceImageDataUri s' = longest (imageUrls (seen_log tr'))"
proof (cases "node = END")
  case True
  with assms show ?thesis by (simp add: crop_step_END)
next
  case False
  from crop_step_Inr [OF st False] obtain u where
    r: "run_node w node s tr = Inr (u, tr')" and s': "s' = merge_crop s u" by blast
  have m: "messages s' = messages s @ update_messages u"
    unfolding s' by (rule messages_merge_crop)
  from run_node_effect [OF r] show ?thesis
  proof
    assume "node = ''llmCall'' \<and> sourceImageDataUri (merge_crop s u) = extractSourceImage s
            \<and> seen_log tr' = messages s"
    with extract_rescan [OF pre src] m s' show ?thesis by simp
  next
    assume "node \<noteq> ''llmCall'' \<and> sourceImageDataUri (merge_crop s u) = sourceImageDataUri s
            \<and> seen_log tr' = seen_log tr"
    with pre src m s' show ?thesis by simp
  qed
qed

lemma crop_run_inv:
  "crop_run w n (crop_invoke input) = Inr (node, s, tr) \<Longrightarrow>
     (\<exists>rest. messages s = seen_log tr @ rest)
     \<and> sourceImageDataUri s = longest (imageUrls (seen_log tr))"
proof (induction n arbitrary: node s tr)
  case 0
  then show ?case by (auto simp: crop_invoke_def seen_log_def imageUrls_def)
next
  case (Suc n)
  from Suc.prems obtain node0 s0 tr0 where
    r: "crop_run w n (crop_invoke input) = Inr (node0, s0, tr0)"
    and st: "crop_step w (node0, s0, tr0) = Inr (node, s, tr)"
    by (cases "crop_run w n (crop_invoke input)") auto
  from Suc.IH [OF r] obtain rest where "messages s0 = seen_log tr0 @ rest"
    and "sourceImageDataUri s0 = longest (imageUrls (seen_log tr0))" by blast
  from crop_step_inv [OF st this] show ?case .
qed

lemma scan_part_replaces:
  assumes "scan_part part cur \<noteq> cur"
  shows "\<exists>u. part = ImageUrlPart (Url_object (Some u)) \<and> scan_part part cur = Some u
           \<and> (cur = None \<or> (\<exists>c. cur = Some c \<and> length c < length u))"
proof (cases part)
  case (TextPart t)
  with assms show ?thesis by (simp add: scan_part_def)
next
  case (ImageUrlPart iu)
  with assms show ?thesis
    by (cases iu; cases cur) (auto simp: scan_part_def split: option.splits if_splits)
qed

section \<open>The message log\<close>

text \<open>
  Claim C1. The reducer of \<open>messages\<close> is list concatenation. Hence, for every initial
  state and every sequence of partial updates merged in step order, the final message
  log is the initial log followed by the messages of each update, in that order: nothing
  is dropped, reordered or deduplicated. This holds for the state of the arithmetic
  scripts and for the state of the image-crop script.
\<close>

theorem messages_concatenation:
  "messages_reducer left right = left @ right
   \<and> messages (foldl merge_messages (s :: MessagesState) us)
       = messages s @ concat (map update_messages us)
   \<and> messages (foldl merge_crop cs cus) = messages cs @ concat (map update_messages cus)"
  by (simp add: messages_reducer_def foldl_merge_messages foldl_merge_crop)

text \<open>
  Claim C9. Reading the latest entry is total: on an empty log it yields the absent value,
  on any other log the last element. The consumers written in the scripts handle the
  empty case: both routers return END, and the tool-call node of langgraph.ts returns an
  update with no messages and invokes nothing.
\<close>

theorem latest_entry_total:
  "at_last ([] :: message list) = None
   \<and> (\<forall>xs :: message list. xs \<noteq> [] \<longrightarrow> at_last xs = Some (last xs))
   \<and> (messages s = [] \<longrightarrow>
        shouldContinue s = END \<and> toolNode add s tr = Inr (\<lparr>messages_u = Some []\<rparr>, tr))
   \<and> (messages cs = [] \<longrightarrow> routeAfterLLM cs = END)"
  by (simp add: at_last_def shouldContinue_def routeAfterLLM_def toolNode_def)

theorem latest_entry_total_witness:
  "messages \<lparr>messages = []\<rparr> = []
   \<and> shouldContinue \<lparr>messages = []\<rparr> = END
   \<and> toolNode add_stub \<lparr>messages = []\<rparr> [] = Inr (\<lparr>messages_u = Some []\<rparr>, [])
   \<and> messages (crop_state0\<lparr>messages := []\<rparr>) = []
   \<and> routeAfterLLM (crop_state0\<lparr>messages := []\<rparr>) = END
   \<and> at_last add_input = Some (last add_input)"
  using latest_entry_total [of "\<lparr>messages = []\<rparr>" add_stub "[]" "crop_state0\<lparr>messages := []\<rparr>"]
  by (simp add: add_input_def)

section \<open>Routers\<close>

text \<open>
  Claim C2. The post-model router returns END when the latest message is absent or is not
  an assistant message, and the name of the tool-call node when the latest assistant
  message carries at least one tool call. Otherwise \<open>routeAfterLLM\<close>, the router of the
  script that has an evaluation stage, returns the name of the evaluation node, and
  \<open>shouldContinue\<close>, the router of the scripts that have none, returns END.
\<close>

theorem post_model_router:
  "(at_last (messages s) = None \<or> (\<exists>m. at_last (messages s) = Some m \<and> \<not> isAIMessage m)
      \<longrightarrow> shouldContinue s = END \<and> routeAfterLLM s = END)
   \<and> (\<forall>c tcs. at_last (messages s) = Some (AIMessage c (Some tcs)) \<and> tcs \<noteq> []
      \<longrightarrow> shouldContinue s = ''toolNode'' \<and> routeAfterLLM s = ''toolNode'')
   \<and> (\<forall>c tcs. at_last (messages s) = Some (AIMessage c tcs) \<and> (tcs = None \<or> tcs = Some [])
      \<longrightarrow> shouldContinue s = END \<and> routeAfterLLM s = ''approver'')"
  by (auto simp: shouldContinue_def routeAfterLLM_def has_tool_calls_def split: option.splits)

theorem post_model_router_witness:
  "at_last (messages \<lparr>messages = []\<rparr>) = None
   \<and> shouldContinue \<lparr>messages = []\<rparr> = END \<and> routeAfterLLM \<lparr>messages = []\<rparr> = END
   \<and> at_last (messages \<lparr>messages = [AIMessage (Str []) (Some [\<lparr>name = ''add'', args = ''{}'', call_id = Some ''1'', call_type = Some ''tool_call''\<rparr>])]\<rparr>)
       = Some (AIMessage (Str []) (Some [\<lparr>name = ''add'', args = ''{}'', call_id = Some ''1'', call_type = Some ''tool_call''\<rparr>]))
   \<and> shouldContinue \<lparr>messages = [AIMessage (Str []) (Some [\<lparr>name = ''add'', args = ''{}'', call_id = Some ''1'', call_type = Some ''tool_call''\<rparr>])]\<rparr> = ''toolNode''
   \<and> routeAfterLLM \<lparr>messages = [AIMessage (Str []) (Some [\<lparr>name = ''add'', args = ''{}'', call_id = Some ''1'', call_type = Some ''tool_call''\<rparr>])]\<rparr> = ''toolNode''
   \<and> at_last (messages \<lparr>messages = [AIMessage (Str ''7'') None]\<rparr>) = Some (AIMessage (Str ''7'') None)
   \<and> shouldContinue \<lparr>messages = [AIMessage (Str ''7'') None]\<rparr> = END
   \<and> routeAfterLLM \<lparr>messages = [AIMessage (Str ''7'') None]\<rparr> = ''approver''
   \<and> at_last (messages \<lparr>messages = add_input\<rparr>) = Some (HumanMessage (Str ''Add 3 and 4.''))
   \<and> \<not> isAIMessage (HumanMessage (Str ''Add 3 and 4.''))
   \<and> shouldContinue \<lparr>messages = add_input\<rparr> = END
   \<and> routeAfterLLM \<lparr>messages = add_input\<rparr> = END"
  using post_model_router [of "\<lparr>messages = []\<rparr>"]
    post_model_router [of "\<lparr>messages = add_input\<rparr>"]
    post_model_router [of "\<lparr>messages = [AIMessage (Str []) (Some [\<lparr>name = ''add'', args = ''{}'', call_id = Some ''1'', call_type = Some ''tool_call''\<rparr>])]\<rparr>"]
    post_model_router [of "\<lparr>messages = [AIMessage (Str ''7'') None]\<rparr>"]
  by (simp add: at_last_def add_input_def)

text \<open>
  Claim C3. The post-evaluation router returns END when the approval status is approved,
  the name of the feedback-injection node when it is rejected, and END for any other
  status (pending). It is a total function into node names: no status raises an error.
\<close>

theorem post_evaluation_router:
  "(status (approval s) = approved \<longrightarrow> routeAfterApprover s = END)
   \<and> (status (approval s) = rejected \<longrightarrow> routeAfterApprover s = ''addRejectionFeedback'')
   \<and> (status (approval s) \<noteq> approved \<and> status (approval s) \<noteq> rejected
        \<longrightarrow> routeAfterApprover s = END)"
  by (simp add: routeAfterApprover_def)

theorem post_evaluation_router_witness:
  "status (approval (retry_state\<lparr>approval := \<lparr>status = approved, feedback = Some ''fine''\<rparr>\<rparr>)) = approved
   \<and> routeAfterApprover (retry_state\<lparr>approval := \<lparr>status = approved, feedback = Some ''fine''\<rparr>\<rparr>) = END
   \<and> status (approval retry_state) = rejected
   \<and> routeAfterApprover retry_state = ''addRejectionFeedback''
   \<and> status (approval crop_state0) \<noteq> approved \<and> status (approval crop_state0) \<noteq> rejected
   \<and> routeAfterApprover crop_state0 = END"
  using post_evaluation_router [of "retry_state\<lparr>approval := \<lparr>status = approved, feedback = Some ''fine''\<rparr>\<rparr>"]
    post_evaluation_router [of retry_state] post_evaluation_router [of crop_state0]
  by (simp add: retry_state_def crop_state0_def approval_default_def)

section \<open>Nodes\<close>

text \<open>
  Claim C4. When the cropped image is absent, the evaluation node returns the update that
  sets the approval to rejected with the fixed feedback \<open>No cropped image was produced\<close>.
  The result is the same in every world and the trace comes back unchanged: the model is
  not invoked on that step.
\<close>

theorem approver_short_circuit:
  "croppedImageDataUri s = None \<Longrightarrow>
     approverNode w s tr =
       Inr (\<lparr>messages_u = None, sourceImageDataUri_u = None, croppedImageDataUri_u = None,
             approval_u = Some (Some \<lparr>status = rejected,
                                      feedback = Some ''No cropped image was produced''\<rparr>)\<rparr>,
            tr)"
  by (simp add: approverNode_def truthy_def)

theorem approver_short_circuit_witness:
  "croppedImageDataUri crop_state0 = None
   \<and> approverNode offline_world crop_state0 [] =
       Inr (\<lparr>messages_u = None, sourceImageDataUri_u = None, croppedImageDataUri_u = None,
             approval_u = Some (Some \<lparr>status = rejected,
                                      feedback = Some ''No cropped image was produced''\<rparr>)\<rparr>,
            [])"
  using approver_short_circuit [of crop_state0 offline_world "[]"]
  by (simp add: crop_state0_def)

text \<open>
  Claim C5, as stated, fails for the image-crop script: on the first step of its run the
  reply carries a tool call, and the update of the model-call node also sets
  \<open>sourceImageDataUri\<close>, which goes from absent to the image of the request.
\<close>

theorem llmNode_frame_counterexample:
  "crop_llmNode sample_world crop_state0 [] =
     Inr (\<lparr>messages_u = Some [crop_reply],
           sourceImageDataUri_u = Some (Some kettle_uri),
           croppedImageDataUri_u = None,
           approval_u = Some (Some \<lparr>status = pending, feedback = None\<rparr>)\<rparr>,
          [ModelInvoked (SystemMessage (Str (systemPrompt crop_state0)) # messages crop_state0)])
   \<and> has_tool_calls crop_reply
   \<and> sourceImageDataUri crop_state0 = None
   \<and> sourceImageDataUri (merge_crop crop_state0
        \<lparr>messages_u = Some [crop_reply],
         sourceImageDataUri_u = Some (Some kettle_uri),
         croppedImageDataUri_u = None,
         approval_u = Some (Some \<lparr>status = pending, feedback = None\<rparr>)\<rparr>) = Some kettle_uri"
  by (simp add: crop_llmNode_def sample_world_def crop_state0_def extractSourceImage_def
      crop_input_def scan_message_def scan_part_def kettle_uri_def has_tool_calls_def
      crop_reply_def merge_crop_def merge_messages_def dataUri_reducer_def approval_reducer_def
      messages_reducer_def Let_def)

text \<open>
  Claim C5, amended. Whether or not the reply carries tool calls, the update of the
  model-call node is the following. In the arithmetic scripts it holds the one key
  \<open>messages\<close>, with the reply, so the merge only appends the reply. In the image-crop
  script it appends the reply, sets \<open>sourceImageDataUri\<close> to the result of the extraction
  and resets the approval to pending with no feedback; it has no key for
  \<open>croppedImageDataUri\<close>, which the merge leaves as it is.
\<close>

theorem llmNode_update:
  "(llmNode model s tr = Inr (u, tr') \<longrightarrow>
      (\<exists>response. model tr (SystemMessage (Str arithmeticPrompt) # messages s) = Inr response
         \<and> u = \<lparr>messages_u = Some [response]\<rparr>
         \<and> merge_messages s u = s\<lparr>messages := messages s @ [response]\<rparr>))
   \<and> (crop_llmNode w cs ctr = Inr (cu, ctr') \<longrightarrow>
      (\<exists>response.
         modelWithTools w ctr (SystemMessage (Str (systemPrompt cs)) # messages cs) = Inr response
         \<and> cu = \<lparr>messages_u = Some [response],
                 sourceImageDataUri_u = Some (extractSourceImage cs),
                 croppedImageDataUri_u = None,
                 approval_u = Some (Some \<lparr>status = pending, feedback = None\<rparr>)\<rparr>
         \<and> merge_crop cs cu =
             cs\<lparr>messages := messages cs @ [response],
                sourceImageDataUri := extractSourceImage cs,
                approval := \<lparr>status = pending, feedback = None\<rparr>\<rparr>))"
proof (intro conjI impI)
  assume "llmNode model s tr = Inr (u, tr')"
  from llmNode_Inr [OF this] obtain response where
    r: "model tr (SystemMessage (Str arithmeticPrompt) # messages s) = Inr response"
    and u: "u = \<lparr>messages_u = Some [response]\<rparr>" by blast
  have "merge_messages s u = s\<lparr>messages := messages s @ [response]\<rparr>"
    unfolding u by (simp add: merge_messages_def messages_reducer_def)
  with r u show "\<exists>response. model tr (SystemMessage (Str arithmeticPrompt) # messages s) = Inr response
         \<and> u = \<lparr>messages_u = Some [response]\<rparr>
         \<and> merge_messages s u = s\<lparr>messages := messages s @ [response]\<rparr>" by blast
next
  assume "crop_llmNode w cs ctr = Inr (cu, ctr')"
  from crop_llmNode_Inr [OF this] obtain response where
    r: "modelWithTools w ctr (SystemMessage (Str (systemPrompt cs)) # messages cs) = Inr response"
    and u: "cu = \<lparr>messages_u = Some [response],
                 sourceImageDataUri_u = Some (extractSourceImage cs),
                 croppedImageDataUri_u = None,
                 approval_u = Some (Some \<lparr>status = pending, feedback = None\<rparr>)\<rparr>" by blast
  have "merge_crop cs cu =
             cs\<lparr>messages := messages cs @ [response],
                sourceImageDataUri := extractSourceImage cs,
                approval := \<lparr>status = pending, feedback = None\<rparr>\<rparr>"
    unfolding u by (rule merge_crop_llm)
  with r u show "\<exists>response.
         modelWithTools w ctr (SystemMessage (Str (systemPrompt cs)) # messages cs) = Inr response
         \<and> cu = \<lparr>messages_u = Some [response],
                 sourceImageDataUri_u = Some (extractSourceImage cs),
                 croppedImageDataUri_u = None,
                 approval_u = Some (Some \<lparr>status = pending, feedback = None\<rparr>)\<rparr>
         \<and> merge_crop cs cu =
             cs\<lparr>messages := messages cs @ [response],
                sourceImageDataUri := extractSourceImage cs,
                approval := \<lparr>status = pending, feedback = None\<rparr>\<rparr>" by blast
qed

theorem llmNode_update_witness:
  "llmNode repeating_model \<lparr>messages = add_input\<rparr> [] =
     Inr (\<lparr>messages_u = Some [AIMessage (Str []) (Some [add_request ''X'', add_request ''X''])]\<rparr>,
          [ModelInvoked (SystemMessage (Str arithmeticPrompt) # add_input)])
   \<and> crop_llmNode sample_world retry_state [] =
     Inr (\<lparr>messages_u = Some [crop_reply],
           sourceImageDataUri_u = Some (Some kettle_uri),
           croppedImageDataUri_u = None,
           approval_u = Some (Some \<lparr>status = pending, feedback = None\<rparr>)\<rparr>,
          [ModelInvoked (SystemMessage (Str (systemPrompt retry_state)) # messages retry_state)])
   \<and> merge_crop retry_state \<lparr>messages_u = Some [crop_reply],
           sourceImageDataUri_u = Some (Some kettle_uri),
           croppedImageDataUri_u = None,
           approval_u = Some (Some \<lparr>status = pending, feedback = None\<rparr>)\<rparr>
      = retry_state\<lparr>messages := messages retry_state @ [crop_reply],
                sourceImageDataUri := Some kettle_uri,
                approval := \<lparr>status = pending, feedback = None\<rparr>\<rparr>"
proof -
  have a: "llmNode repeating_model \<lparr>messages = add_input\<rparr> [] =
     Inr (\<lparr>messages_u = Some [AIMessage (Str []) (Some [add_request ''X'', add_request ''X''])]\<rparr>,
          [ModelInvoked (SystemMessage (Str arithmeticPrompt) # add_input)])"
    by (simp add: llmNode_def repeating_model_def)
  have e: "extractSourceImage retry_state = Some kettle_uri"
    by (simp add: extractSourceImage_def retry_state_def crop_input_def scan_message_def
        scan_part_def crop_reply_def)
  have b: "crop_llmNode sample_world retry_state [] =
     Inr (\<lparr>messages_u = Some [crop_reply],
           sourceImageDataUri_u = Some (Some kettle_uri),
           croppedImageDataUri_u = None,
           approval_u = Some (Some \<lparr>status = pending, feedback = None\<rparr>)\<rparr>,
          [ModelInvoked (SystemMessage (Str (systemPrompt retry_state)) # messages retry_state)])"
    by (simp add: crop_llmNode_def sample_world_def e)
  have "merge_crop retry_state \<lparr>messages_u = Some [crop_reply],
           sourceImageDataUri_u = Some (Some kettle_uri),
           croppedImageDataUri_u = None,
           approval_u = Some (Some \<lparr>status = pending, feedback = None\<rparr>)\<rparr>
      = retry_state\<lparr>messages := messages retry_state @ [crop_reply],
                sourceImageDataUri := Some kettle_uri,
                approval := \<lparr>status = pending, feedback = None\<rparr>\<rparr>"
    using llmNode_update [of repeating_model "\<lparr>messages = add_input\<rparr>" "[]"
        "\<lparr>messages_u = Some [AIMessage (Str []) (Some [add_request ''X'', add_request ''X''])]\<rparr>"
        "[ModelInvoked (SystemMessage (Str arithmeticPrompt) # add_input)]"
        sample_world retry_state "[]"
        "\<lparr>messages_u = Some [crop_reply],
           sourceImageDataUri_u = Some (Some kettle_uri),
           croppedImageDataUri_u = None,
           approval_u = Some (Some \<lparr>status = pending, feedback = None\<rparr>)\<rparr>"
        "[ModelInvoked (SystemMessage (Str (systemPrompt retry_state)) # messages retry_state)]"]
      b e by simp
  with a b show ?thesis by simp
qed

text \<open>
  Claim C6. In every step of the approval-loop graph: after a step of the model-call node
  the approval is pending with no feedback; after a step of the evaluation node its
  status is approved or rejected; the update of any other node (the tool-call node, the
  feedback-injection node) has no approval key, so the merge leaves the approval as it
  was. The reset is part of the update the model-call node returns, so the prompt of that
  attempt is still built from the feedback of the attempt before.
\<close>

theorem approval_lifecycle:
  assumes "run_node w node s tr = Inr (u, tr')"
  shows "(node = ''llmCall'' \<longrightarrow>
            approval (merge_crop s u) = \<lparr>status = pending, feedback = None\<rparr>)
       \<and> (node = ''approver'' \<longrightarrow>
            status (approval (merge_crop s u)) = approved
            \<or> status (approval (merge_crop s u)) = rejected)
       \<and> (node \<noteq> ''llmCall'' \<and> node \<noteq> ''approver'' \<longrightarrow>
            approval_u u = None \<and> approval (merge_crop s u) = approval s)"
proof -
  have llm: "approval (merge_crop s u) = \<lparr>status = pending, feedback = None\<rparr>"
    if "node = ''llmCall''"
  proof -
    from that assms have "crop_llmNode w s tr = Inr (u, tr')" by (simp add: run_node_def)
    from crop_llmNode_Inr [OF this] show ?thesis
      by (auto simp: approval_merge_crop approval_reducer_def)
  qed
  have appr: "status (approval (merge_crop s u)) = approved
        \<or> status (approval (merge_crop s u)) = rejected"
    if "node = ''approver''"
  proof -
    from that assms have "approverNode w s tr = Inr (u, tr')" by (simp add: run_node_def)
    from approverNode_Inr [OF this] show ?thesis
      by (auto simp: approval_merge_crop approval_reducer_def)
  qed
  have other: "approval_u u = None \<and> approval (merge_crop s u) = approval s"
    if n: "node \<noteq> ''llmCall'' \<and> node \<noteq> ''approver''"
  proof -
    have "approval_u u = None"
    proof (cases "node = ''toolNode''")
      case True
      with assms have "crop_toolNode w s tr = Inr (u, tr')" by (simp add: run_node_def)
      from crop_toolNode_Inr [OF this] show ?thesis by auto
    next
      case False
      with n assms have "u = addRejectionFeedback s"
        by (simp add: run_node_def split: if_splits)
      then show ?thesis by (simp add: addRejectionFeedback_def)
    qed
    then show ?thesis by (simp add: approval_merge_crop)
  qed
  from llm appr other show ?thesis by blast
qed

theorem approval_lifecycle_witness:
  "run_node sample_world ''llmCall'' retry_state [] =
     Inr (\<lparr>messages_u = Some [crop_reply],
           sourceImageDataUri_u = Some (extractSourceImage retry_state),
           croppedImageDataUri_u = None,
           approval_u = Some (Some \<lparr>status = pending, feedback = None\<rparr>)\<rparr>,
          [ModelInvoked (SystemMessage (Str (systemPrompt retry_state)) # messages retry_state)])
   \<and> approval (merge_crop retry_state
         \<lparr>messages_u = Some [crop_reply],
          sourceImageDataUri_u = Some (extractSourceImage retry_state),
          croppedImageDataUri_u = None,
          approval_u = Some (Some \<lparr>status = pending, feedback = None\<rparr>)\<rparr>)
       = \<lparr>status = pending, feedback = None\<rparr>
   \<and> run_node offline_world ''approver'' crop_state0 [] =
     Inr (\<lparr>messages_u = None, sourceImageDataUri_u = None, croppedImageDataUri_u = None,
           approval_u = Some (Some \<lparr>status = rejected,
                                    feedback = Some ''No cropped image was produced''\<rparr>)\<rparr>,
          [])
   \<and> status (approval (merge_crop crop_state0
         \<lparr>messages_u = None, sourceImageDataUri_u = None, croppedImageDataUri_u = None,
          approval_u = Some (Some \<lparr>status = rejected,
                                   feedback = Some ''No cropped image was produced''\<rparr>)\<rparr>))
       = rejected
   \<and> run_node offline_world ''addRejectionFeedback'' retry_state [] =
     Inr (addRejectionFeedback retry_state, [])
   \<and> approval (merge_crop retry_state (addRejectionFeedback retry_state))
       = approval retry_state"
proof -
  have a: "run_node sample_world ''llmCall'' retry_state [] =
     Inr (\<lparr>messages_u = Some [crop_reply],
           sourceImageDataUri_u = Some (extractSourceImage retry_state),
           croppedImageDataUri_u = None,
           approval_u = Some (Some \<lparr>status = pending, feedback = None\<rparr>)\<rparr>,
          [ModelInvoked (SystemMessage (Str (systemPrompt retry_state)) # messages retry_state)])"
    by (simp add: run_node_def crop_llmNode_def sample_world_def)
  have b: "run_node offline_world ''approver'' crop_state0 [] =
     Inr (\<lparr>messages_u = None, sourceImageDataUri_u = None, croppedImageDataUri_u = None,
           approval_u = Some (Some \<lparr>status = rejected,
                                    feedback = Some ''No cropped image was produced''\<rparr>)\<rparr>,
          [])"
    by (simp add: run_node_def approverNode_def crop_state0_def truthy_def)
  have c: "run_node offline_world ''addRejectionFeedback'' retry_state [] =
     Inr (addRejectionFeedback retry_state, [])"
    by (simp add: run_node_def)
  show ?thesis
    using approval_lifecycle [OF a] approval_lifecycle [OF b] approval_lifecycle [OF c] a b c
    by (simp add: approval_merge_crop approval_reducer_def)
qed

text \<open>
  Claim C7, as stated, fails: the tool-call node of langgraph.ts does not return an entry
  per request for every such state. When a request names a tool that is not in the
  registry the node throws a TypeError, and when the registered tool throws on the
  arguments of a request the node throws that error; in both cases it returns no
  tool-result entry at all.
\<close>

theorem toolNode_unregistered_counterexample:
  "at_last (messages \<lparr>messages = add_input @ [AIMessage (Str []) (Some [sqrt_request])]\<rparr>)
     = Some (AIMessage (Str []) (Some [sqrt_request]))
   \<and> toolNode add_stub \<lparr>messages = add_input @ [AIMessage (Str []) (Some [sqrt_request])]\<rparr> []
     = Inl TypeError
   \<and> at_last (messages \<lparr>messages = add_input @ [AIMessage (Str []) (Some [bad_add_request])]\<rparr>)
     = Some (AIMessage (Str []) (Some [bad_add_request]))
   \<and> toolsByName strict_add (name bad_add_request) = Some strict_add
   \<and> toolNode strict_add \<lparr>messages = add_input @ [AIMessage (Str []) (Some [bad_add_request])]\<rparr> []
     = Inl (ToolError ''Received tool input did not match expected schema'')"
  by (simp add: at_last_def toolNode_def toolsByName_def sqrt_request_def add_input_def
      bad_add_request_def strict_add_def invoke_tool_def)

text \<open>
  Claim C7, amended. Let the latest message be an assistant message with a list of
  tool-call requests. When every request names the registered tool, has the type
  \<open>tool_call\<close>, and the tool returns normally on its arguments, the tool-call node invokes
  the tool once per request, in request order, and returns exactly one entry per request,
  in the same order: the value \<open>tool.invoke\<close> returned for that request, which is the
  tool message with the tool's output and the id of the request when the id is truthy,
  and the bare output when the request has no id or an empty one. Otherwise the node
  fails and returns no update.
\<close>

theorem toolNode_results:
  assumes "at_last (messages s) = Some (AIMessage c (Some tcs))"
  shows "(list_all (succeeds add) tcs \<longrightarrow>
            (\<exists>result. toolNode add s tr = Inr (\<lparr>messages_u = Some result\<rparr>, tr @ map ToolInvoked tcs)
               \<and> list_all2 (answers add) tcs result))
       \<and> (\<not> list_all (succeeds add) tcs \<longrightarrow> (\<exists>e. toolNode add s tr = Inl e))"
proof -
  have ok: "\<exists>result. toolNode add s tr = Inr (\<lparr>messages_u = Some result\<rparr>, tr @ map ToolInvoked tcs)
               \<and> list_all2 (answers add) tcs result"
    if "list_all (succeeds add) tcs"
  proof -
    from toolLoop_succeeds [OF that] obtain r tr' where
      l: "toolLoop (toolsByName add) tcs [] tr = Inr (r, tr')" by blast
    from toolLoop_Inr [OF l] have "tr' = tr @ map ToolInvoked tcs" "list_all2 (answers add) tcs r"
      by auto
    with l toolNode_AI [OF assms, of add tr] show ?thesis by simp
  qed
  have bad: "\<exists>e. toolNode add s tr = Inl e" if "\<not> list_all (succeeds add) tcs"
  proof -
    from toolLoop_fails [OF that] obtain e where
      "toolLoop (toolsByName add) tcs [] tr = Inl e" by blast
    with toolNode_AI [OF assms, of add tr] show ?thesis by simp
  qed
  from ok bad show ?thesis by blast
qed

theorem toolNode_results_witness:
  "at_last (messages \<lparr>messages = add_input @
       [AIMessage (Str []) (Some [add_request ''A'', (add_request ''B'')\<lparr>call_id := None\<rparr>])]\<rparr>)
     = Some (AIMessage (Str []) (Some [add_request ''A'', (add_request ''B'')\<lparr>call_id := None\<rparr>]))
   \<and> list_all (succeeds add_stub) [add_request ''A'', (add_request ''B'')\<lparr>call_id := None\<rparr>]
   \<and> toolNode add_stub \<lparr>messages = add_input @
       [AIMessage (Str []) (Some [add_request ''A'', (add_request ''B'')\<lparr>call_id := None\<rparr>])]\<rparr> []
     = Inr (\<lparr>messages_u = Some [Entry (ToolMessage (Str ''7'') ''A''), Bare ''7'']\<rparr>,
            [ToolInvoked (add_request ''A''), ToolInvoked ((add_request ''B'')\<lparr>call_id := None\<rparr>)])
   \<and> list_all2 (answers add_stub) [add_request ''A'', (add_request ''B'')\<lparr>call_id := None\<rparr>]
        [Entry (ToolMessage (Str ''7'') ''A''), Bare ''7'']
   \<and> \<not> list_all (succeeds add_stub) [sqrt_request]
   \<and> toolNode add_stub \<lparr>messages = [AIMessage (Str []) (Some [sqrt_request])]\<rparr> [] = Inl TypeError"
proof -
  have a: "at_last (messages \<lparr>messages = add_input @
       [AIMessage (Str []) (Some [add_request ''A'', (add_request ''B'')\<lparr>call_id := None\<rparr>])]\<rparr>)
     = Some (AIMessage (Str []) (Some [add_request ''A'', (add_request ''B'')\<lparr>call_id := None\<rparr>]))"
    by (simp add: at_last_def)
  have b: "at_last (messages \<lparr>messages = [AIMessage (Str []) (Some [sqrt_request])]\<rparr>)
     = Some (AIMessage (Str []) (Some [sqrt_request]))"
    by (simp add: at_last_def)
  have s: "list_all (succeeds add_stub) [add_request ''A'', (add_request ''B'')\<lparr>call_id := None\<rparr>]"
    by (simp add: succeeds_def add_stub_def add_request_def)
  have f: "\<not> list_all (succeeds add_stub) [sqrt_request]"
    by (simp add: succeeds_def sqrt_request_def)
  from toolNode_results [OF a, of add_stub "[]"] s
  obtain result where r: "toolNode add_stub \<lparr>messages = add_input @
       [AIMessage (Str []) (Some [add_request ''A'', (add_request ''B'')\<lparr>call_id := None\<rparr>])]\<rparr> []
      = Inr (\<lparr>messages_u = Some result\<rparr>,
             [] @ map ToolInvoked [add_request ''A'', (add_request ''B'')\<lparr>call_id := None\<rparr>])"
    and l: "list_all2 (answers add_stub)
              [add_request ''A'', (add_request ''B'')\<lparr>call_id := None\<rparr>] result"
    by blast
  from l have "result = [Entry (ToolMessage (Str ''7'') ''A''), Bare ''7'']"
    by (auto simp: list_all2_Cons1 answers_def add_stub_def add_request_def format_output_def)
  with r l have ok: "toolNode add_stub \<lparr>messages = add_input @
       [AIMessage (Str []) (Some [add_request ''A'', (add_request ''B'')\<lparr>call_id := None\<rparr>])]\<rparr> []
     = Inr (\<lparr>messages_u = Some [Entry (ToolMessage (Str ''7'') ''A''), Bare ''7'']\<rparr>,
            [ToolInvoked (add_request ''A''), ToolInvoked ((add_request ''B'')\<lparr>call_id := None\<rparr>)])"
    "list_all2 (answers add_stub) [add_request ''A'', (add_request ''B'')\<lparr>call_id := None\<rparr>]
        [Entry (ToolMessage (Str ''7'') ''A''), Bare ''7'']"
    by simp_all
  from toolNode_results [OF b, of add_stub "[]"] f
  obtain e where e: "toolNode add_stub \<lparr>messages = [AIMessage (Str []) (Some [sqrt_request])]\<rparr> [] = Inl e"
    by blast
  then have "e = TypeError"
    by (simp add: toolNode_def at_last_def toolsByName_def sqrt_request_def)
  with a s f ok e show ?thesis by simp
qed

text \<open>
  Claim C8, as stated, fails: the scripts never check the correlation and have no
  ProtocolError. In the run of langgraph.ts below the model asks twice under the id
  \<open>X\<close>; the tool-call node answers with two entries carrying \<open>X\<close>, the model-call node
  runs again on a log in which \<open>X\<close> is not matched exactly once, and the run ends
  normally at END.
\<close>

theorem duplicate_id_run_counterexample:
  "agent_run repeating_model add_stub 3 (agent_invoke add_input) =
     Some (Inr (END,
          \<lparr>messages = add_input @
             [AIMessage (Str []) (Some [add_request ''X'', add_request ''X'']),
              ToolMessage (Str ''7'') ''X'', ToolMessage (Str ''7'') ''X'',
              AIMessage (Str ''7'') None]\<rparr>,
          [ModelInvoked (SystemMessage (Str arithmeticPrompt) # add_input),
           ToolInvoked (add_request ''X''), ToolInvoked (add_request ''X''),
           ModelInvoked (SystemMessage (Str arithmeticPrompt) # add_input @
             [AIMessage (Str []) (Some [add_request ''X'', add_request ''X'']),
              ToolMessage (Str ''7'') ''X'', ToolMessage (Str ''7'') ''X''])]))
   \<and> \<not> correlated (add_input @
             [AIMessage (Str []) (Some [add_request ''X'', add_request ''X'']),
              ToolMessage (Str ''7'') ''X'', ToolMessage (Str ''7'') ''X''])
   \<and> \<not> matched_once (add_input @
             [AIMessage (Str []) (Some [add_request ''X'', add_request ''X'']),
              ToolMessage (Str ''7'') ''X'', ToolMessage (Str ''7'') ''X'']) ''X''"
proof -
  have 1: "agent_step repeating_model add_stub (agent_invoke add_input) =
      Some (Inr (''toolNode'',
           \<lparr>messages = add_input @ [AIMessage (Str []) (Some [add_request ''X'', add_request ''X''])]\<rparr>,
           [ModelInvoked (SystemMessage (Str arithmeticPrompt) # add_input)]))"
    by (simp add: agent_step_def agent_invoke_def END_def llmNode_def repeating_model_def
        merge_messages_def messages_reducer_def shouldContinue_def at_last_def
        has_tool_calls_def)
  have 2: "agent_step repeating_model add_stub (''toolNode'',
           \<lparr>messages = add_input @ [AIMessage (Str []) (Some [add_request ''X'', add_request ''X''])]\<rparr>,
           [ModelInvoked (SystemMessage (Str arithmeticPrompt) # add_input)]) =
      Some (Inr (''llmCall'',
           \<lparr>messages = add_input @ [AIMessage (Str []) (Some [add_request ''X'', add_request ''X'']),
              ToolMessage (Str ''7'') ''X'', ToolMessage (Str ''7'') ''X'']\<rparr>,
           [ModelInvoked (SystemMessage (Str arithmeticPrompt) # add_input),
            ToolInvoked (add_request ''X''), ToolInvoked (add_request ''X'')]))"
    by (simp add: agent_step_def END_def toolNode_def at_last_def toolsByName_def
        invoke_tool_def format_output_def typed_update_def add_stub_def add_request_def
        merge_messages_def messages_reducer_def)
  have 3: "agent_step repeating_model add_stub (''llmCall'',
           \<lparr>messages = add_input @ [AIMessage (Str []) (Some [add_request ''X'', add_request ''X'']),
              ToolMessage (Str ''7'') ''X'', ToolMessage (Str ''7'') ''X'']\<rparr>,
           [ModelInvoked (SystemMessage (Str arithmeticPrompt) # add_input),
            ToolInvoked (add_request ''X''), ToolInvoked (add_request ''X'')]) =
      Some (Inr (END,
          \<lparr>messages = add_input @
             [AIMessage (Str []) (Some [add_request ''X'', add_request ''X'']),
              ToolMessage (Str ''7'') ''X'', ToolMessage (Str ''7'') ''X'',
              AIMessage (Str ''7'') None]\<rparr>,
          [ModelInvoked (SystemMessage (Str arithmeticPrompt) # add_input),
           ToolInvoked (add_request ''X''), ToolInvoked (add_request ''X''),
           ModelInvoked (SystemMessage (Str arithmeticPrompt) # add_input @
             [AIMessage (Str []) (Some [add_request ''X'', add_request ''X'']),
              ToolMessage (Str ''7'') ''X'', ToolMessage (Str ''7'') ''X''])]))"
    by (simp add: agent_step_def END_def llmNode_def repeating_model_def
        merge_messages_def messages_reducer_def shouldContinue_def at_last_def
        has_tool_calls_def)
  have run: "agent_run repeating_model add_stub 3 (agent_invoke add_input) =
     Some (Inr (END,
          \<lparr>messages = add_input @
             [AIMessage (Str []) (Some [add_request ''X'', add_request ''X'']),
              ToolMessage (Str ''7'') ''X'', ToolMessage (Str ''7'') ''X'',
              AIMessage (Str ''7'') None]\<rparr>,
          [ModelInvoked (SystemMessage (Str arithmeticPrompt) # add_input),
           ToolInvoked (add_request ''X''), ToolInvoked (add_request ''X''),
           ModelInvoked (SystemMessage (Str arithmeticPrompt) # add_input @
             [AIMessage (Str []) (Some [add_request ''X'', add_request ''X'']),
              ToolMessage (Str ''7'') ''X'', ToolMessage (Str ''7'') ''X''])]))"
    by (simp add: eval_nat_numeral 1 2 3)
  have m: "\<not> matched_once (add_input @
             [AIMessage (Str []) (Some [add_request ''X'', add_request ''X'']),
              ToolMessage (Str ''7'') ''X'', ToolMessage (Str ''7'') ''X'']) ''X''"
    by (simp add: matched_once_def add_input_def)
  then have c: "\<not> correlated (add_input @
             [AIMessage (Str []) (Some [add_request ''X'', add_request ''X'']),
              ToolMessage (Str ''7'') ''X'', ToolMessage (Str ''7'') ''X''])"
    by (simp add: correlated_def request_ids_def add_input_def add_request_def)
  from run m c show ?thesis by simp
qed

text \<open>
  Claim C8, amended. In langgraph.ts, let the latest message be an assistant message with
  tool-call requests. When the tool-call node returns, its update holds one entry per
  request, in request order, and the entry carries the id of its request when that id is
  truthy and no id otherwise. When the step of the graph completes with an update of
  tool messages, the next node is the model-call node, the tool messages appended to the
  log carry the ids of the requests in request order, and for every id X the number of
  tool-result entries of the log that carry X is the number before the step plus the
  number of requests of the step that carry X; so X is matched by exactly one
  tool-result entry of the log exactly when that sum is 1. There is no correlation check
  and no ProtocolError: when the node fails, the error is the TypeError of an
  unregistered tool, the ToolInputParsingException of a request whose type is not
  \<open>tool_call\<close>, or the error the tool itself threw.
\<close>

theorem tool_results_carry_request_ids:
  assumes "at_last (messages s) = Some (AIMessage c (Some tcs))"
  shows "(toolNode add s tr = Inr (u, tr') \<longrightarrow>
            (\<exists>result. u = \<lparr>messages_u = Some result\<rparr>
               \<and> map observed_id result = map answered_id tcs))
       \<and> (agent_step model add (''toolNode'', s, tr) = Some (Inr (node', s', tr'')) \<longrightarrow>
            node' = ''llmCall''
            \<and> (\<exists>ms. messages s' = messages s @ ms \<and> map tool_call_id ms = map call_id tcs)
            \<and> (\<forall>x. results_with x (messages s')
                     = results_with x (messages s) + requests_with x tcs)
            \<and> (\<forall>x. matched_once (messages s') x
                     \<longleftrightarrow> results_with x (messages s) + requests_with x tcs = 1))
       \<and> (toolNode add s tr = Inl e \<longrightarrow>
            (e = TypeError \<and> (\<exists>tc \<in> set tcs. name tc \<noteq> ''add''))
            \<or> (e = ToolInputParsingException
                 \<and> (\<exists>tc \<in> set tcs. name tc = ''add'' \<and> call_type tc \<noteq> Some ''tool_call''))
            \<or> (\<exists>tc \<in> set tcs. add (args tc) = Inl e))"
proof -
  have node: "\<exists>result. u = \<lparr>messages_u = Some result\<rparr>
               \<and> map observed_id result = map answered_id tcs"
    if st: "toolNode add s tr = Inr (u, tr')"
  proof -
    from st obtain r where l: "toolLoop (toolsByName add) tcs [] tr = Inr (r, tr')"
      and u: "u = \<lparr>messages_u = Some r\<rparr>"
      by (auto simp: toolNode_AI [OF assms] split: sum.splits)
    from toolLoop_Inr [OF l] have "list_all2 (answers add) tcs r" by auto
    from answers_observed_id [OF this] u show ?thesis by blast
  qed
  have step: "node' = ''llmCall''
            \<and> (\<exists>ms. messages s' = messages s @ ms \<and> map tool_call_id ms = map call_id tcs)
            \<and> (\<forall>x. results_with x (messages s')
                     = results_with x (messages s) + requests_with x tcs)
            \<and> (\<forall>x. matched_once (messages s') x
                     \<longleftrightarrow> results_with x (messages s) + requests_with x tcs = 1)"
    if st: "agent_step model add (''toolNode'', s, tr) = Some (Inr (node', s', tr''))"
  proof -
    from st obtain r u' where l: "toolLoop (toolsByName add) tcs [] tr = Inr (r, tr'')"
      and t: "typed_update \<lparr>messages_u = Some r\<rparr> = Some u'"
      and n: "node' = ''llmCall''" and s': "s' = merge_messages s u'"
      by (auto simp: agent_step_toolNode toolNode_AI [OF assms] split: sum.splits option.splits)
    from t obtain ms where a: "as_messages r = Some ms" and u': "u' = \<lparr>messages_u = Some ms\<rparr>"
      by (auto simp: typed_update_def split: option.splits)
    from toolLoop_Inr [OF l] have "list_all2 (answers add) tcs r" by auto
    with as_messages_Some [OF a] have "list_all2 (answers add) tcs (map Entry ms)" by simp
    from answers_entries_ids [OF this] have ids: "map tool_call_id ms = map call_id tcs" .
    have m: "messages s' = messages s @ ms"
      unfolding s' u' by (simp add: messages_merge_messages update_messages_def)
    have c: "results_with x (messages s') = results_with x (messages s) + requests_with x tcs"
      for x
      unfolding m by (simp add: results_with_append results_with_ids [OF ids])
    have "matched_once (messages s') x
            \<longleftrightarrow> results_with x (messages s) + requests_with x tcs = 1" for x
      using c [of x] by (simp add: matched_once_def results_with_def)
    with n m ids c show ?thesis by blast
  qed
  have bad: "(e = TypeError \<and> (\<exists>tc \<in> set tcs. name tc \<noteq> ''add''))
            \<or> (e = ToolInputParsingException
                 \<and> (\<exists>tc \<in> set tcs. name tc = ''add'' \<and> call_type tc \<noteq> Some ''tool_call''))
            \<or> (\<exists>tc \<in> set tcs. add (args tc) = Inl e)"
    if st: "toolNode add s tr = Inl e"
  proof -
    from st have "toolLoop (toolsByName add) tcs [] tr = Inl e"
      by (auto simp: toolNode_AI [OF assms] split: sum.splits)
    from toolLoop_Inl [OF this] show ?thesis .
  qed
  from node step bad show ?thesis by blast
qed

theorem tool_results_carry_request_ids_witness:
  "at_last (messages \<lparr>messages = [AIMessage (Str []) (Some [add_request ''A'', add_request ''B''])]\<rparr>)
     = Some (AIMessage (Str []) (Some [add_request ''A'', add_request ''B'']))
   \<and> toolNode add_stub
        \<lparr>messages = [AIMessage (Str []) (Some [add_request ''A'', add_request ''B''])]\<rparr> []
     = Inr (\<lparr>messages_u = Some [Entry (ToolMessage (Str ''7'') ''A''),
                                 Entry (ToolMessage (Str ''7'') ''B'')]\<rparr>,
            [ToolInvoked (add_request ''A''), ToolInvoked (add_request ''B'')])
   \<and> map observed_id [Entry (ToolMessage (Str ''7'') ''A''), Entry (ToolMessage (Str ''7'') ''B'')]
     = map answered_id [add_request ''A'', add_request ''B'']
   \<and> agent_step repeating_model add_stub
        (''toolNode'', \<lparr>messages = [AIMessage (Str []) (Some [add_request ''A'', add_request ''B''])]\<rparr>, [])
     = Some (Inr (''llmCall'',
            \<lparr>messages = [AIMessage (Str []) (Some [add_request ''A'', add_request ''B'']),
                         ToolMessage (Str ''7'') ''A'', ToolMessage (Str ''7'') ''B'']\<rparr>,
            [ToolInvoked (add_request ''A''), ToolInvoked (add_request ''B'')]))
   \<and> results_with ''A'' [AIMessage (Str []) (Some [add_request ''A'', add_request ''B''])]
       + requests_with ''A'' [add_request ''A'', add_request ''B''] = 1
   \<and> matched_once [AIMessage (Str []) (Some [add_request ''A'', add_request ''B'']),
                    ToolMessage (Str ''7'') ''A'', ToolMessage (Str ''7'') ''B''] ''A''
   \<and> at_last (messages \<lparr>messages = [AIMessage (Str []) (Some [sqrt_request])]\<rparr>)
     = Some (AIMessage (Str []) (Some [sqrt_request]))
   \<and> toolNode add_stub \<lparr>messages = [AIMessage (Str []) (Some [sqrt_request])]\<rparr> []
     = Inl TypeError
   \<and> name sqrt_request \<noteq> ''add''"
proof -
  have a: "at_last (messages \<lparr>messages = [AIMessage (Str []) (Some [add_request ''A'', add_request ''B''])]\<rparr>)
     = Some (AIMessage (Str []) (Some [add_request ''A'', add_request ''B'']))"
    by (simp add: at_last_def)
  have b: "at_last (messages \<lparr>messages = [AIMessage (Str []) (Some [sqrt_request])]\<rparr>)
     = Some (AIMessage (Str []) (Some [sqrt_request]))"
    by (simp add: at_last_def)
  have t: "toolNode add_stub
        \<lparr>messages = [AIMessage (Str []) (Some [add_request ''A'', add_request ''B''])]\<rparr> []
     = Inr (\<lparr>messages_u = Some [Entry (ToolMessage (Str ''7'') ''A''),
                                 Entry (ToolMessage (Str ''7'') ''B'')]\<rparr>,
            [ToolInvoked (add_request ''A''), ToolInvoked (add_request ''B'')])"
    by (simp add: toolNode_def at_last_def toolsByName_def invoke_tool_def format_output_def
        add_stub_def add_request_def)
  have st: "agent_step repeating_model add_stub
        (''toolNode'', \<lparr>messages = [AIMessage (Str []) (Some [add_request ''A'', add_request ''B''])]\<rparr>, [])
     = Some (Inr (''llmCall'',
            \<lparr>messages = [AIMessage (Str []) (Some [add_request ''A'', add_request ''B'']),
                         ToolMessage (Str ''7'') ''A'', ToolMessage (Str ''7'') ''B'']\<rparr>,
            [ToolInvoked (add_request ''A''), ToolInvoked (add_request ''B'')]))"
    by (simp add: agent_step_toolNode t typed_update_def merge_messages_def messages_reducer_def)
  have f: "toolNode add_stub \<lparr>messages = [AIMessage (Str []) (Some [sqrt_request])]\<rparr> []
     = Inl TypeError"
    by (simp add: toolNode_def at_last_def toolsByName_def sqrt_request_def)
  have k: "results_with ''A'' [AIMessage (Str []) (Some [add_request ''A'', add_request ''B''])]
       + requests_with ''A'' [add_request ''A'', add_request ''B''] = 1"
    by (simp add: results_with_def requests_with_def add_request_def)
  note T = tool_results_carry_request_ids [OF a, of add_stub "[]"
      "\<lparr>messages_u = Some [Entry (ToolMessage (Str ''7'') ''A''),
                            Entry (ToolMessage (Str ''7'') ''B'')]\<rparr>"
      "[ToolInvoked (add_request ''A''), ToolInvoked (add_request ''B'')]"
      repeating_model "''llmCall''"
      "\<lparr>messages = [AIMessage (Str []) (Some [add_request ''A'', add_request ''B'']),
                         ToolMessage (Str ''7'') ''A'', ToolMessage (Str ''7'') ''B'']\<rparr>"
      "[ToolInvoked (add_request ''A''), ToolInvoked (add_request ''B'')]"]
  from T t have o: "map observed_id
        [Entry (ToolMessage (Str ''7'') ''A''), Entry (ToolMessage (Str ''7'') ''B'')]
     = map answered_id [add_request ''A'', add_request ''B'']"
    by auto
  from T st have "matched_once
        (messages \<lparr>messages = [AIMessage (Str []) (Some [add_request ''A'', add_request ''B'']),
                         ToolMessage (Str ''7'') ''A'', ToolMessage (Str ''7'') ''B'']\<rparr>) ''A''
      \<longleftrightarrow> results_with ''A''
            (messages \<lparr>messages = [AIMessage (Str []) (Some [add_request ''A'', add_request ''B''])]\<rparr>)
          + requests_with ''A'' [add_request ''A'', add_request ''B''] = 1"
    by blast
  with k have m: "matched_once [AIMessage (Str []) (Some [add_request ''A'', add_request ''B'']),
                    ToolMessage (Str ''7'') ''A'', ToolMessage (Str ''7'') ''B''] ''A''"
    by simp
  from tool_results_carry_request_ids [OF b, of add_stub "[]" _ _ _ _ _ _ TypeError] f
  have n: "name sqrt_request \<noteq> ''add''"
    by (auto simp: add_stub_def)
  from a b t o st k m f n show ?thesis by simp
qed

section \<open>The source image\<close>

text \<open>
  Claim C10. In the image-crop script the extraction of the model-call node replaces the
  candidate only by the url of an \<open>image_url\<close> part that is strictly longer than the
  current value, or when there is no current value. Consequently, in every step of the
  graph the length of \<open>sourceImageDataUri\<close> does not decrease (an absent value counting
  as 0), and at every point of every run \<open>sourceImageDataUri\<close> is the first longest image
  url of the log the model-call node has scanned so far, which is a prefix of the current
  log; it is absent exactly when no such url was scanned. The image urls are those the
  extraction accepts: the \<open>url\<close> of an \<open>image_url\<close> object when it is a non-empty
  string.
\<close>

theorem source_image_longest:
  "(scan_part part cur \<noteq> cur \<longrightarrow>
      (\<exists>u. part = ImageUrlPart (Url_object (Some u)) \<and> scan_part part cur = Some u
         \<and> (cur = None \<or> (\<exists>c. cur = Some c \<and> length c < length u))))
   \<and> (crop_step w (node, s, tr) = Inr (node', s', tr') \<longrightarrow>
        strlen (sourceImageDataUri s) \<le> strlen (sourceImageDataUri s'))
   \<and> (crop_run w n (crop_invoke input) = Inr (rnode, rs, rtr) \<longrightarrow>
        sourceImageDataUri rs = longest (imageUrls (seen_log rtr))
        \<and> (\<exists>rest. messages rs = seen_log rtr @ rest))"
  using scan_part_replaces [of part cur] crop_step_strlen [of w node s tr node' s' tr']
    crop_run_inv [of w n input rnode rs rtr]
  by blast

theorem source_image_longest_witness:
  "scan_part (ImageUrlPart (Url_object (Some kettle_uri))) None \<noteq> None
   \<and> scan_part (ImageUrlPart (Url_object (Some kettle_uri))) None = Some kettle_uri
   \<and> crop_step sample_world (''llmCall'', crop_state0, []) =
       Inr (''toolNode'',
            \<lparr>messages = crop_input @ [crop_reply], sourceImageDataUri = Some kettle_uri,
             croppedImageDataUri = None, approval = \<lparr>status = pending, feedback = None\<rparr>\<rparr>,
            [ModelInvoked (SystemMessage (Str (systemPrompt crop_state0)) # crop_input)])
   \<and> strlen (sourceImageDataUri crop_state0) \<le> strlen (Some kettle_uri)
   \<and> crop_run sample_world 2 (crop_invoke crop_input) =
       Inr (''approver'',
            \<lparr>messages = crop_input @ [crop_reply,
               ToolMessage (Str ''data:image/webp;base64,UklG'') ''call_1''],
             sourceImageDataUri = Some kettle_uri,
             croppedImageDataUri = Some ''data:image/webp;base64,UklG'',
             approval = \<lparr>status = pending, feedback = None\<rparr>\<rparr>,
            [ModelInvoked (SystemMessage (Str (systemPrompt crop_state0)) # crop_input),
             ToolNodeInvoked])
   \<and> longest (imageUrls (seen_log
         [ModelInvoked (SystemMessage (Str (systemPrompt crop_state0)) # crop_input),
          ToolNodeInvoked])) = Some kettle_uri"
proof -
  have p: "scan_part (ImageUrlPart (Url_object (Some kettle_uri))) None = Some kettle_uri"
    by (simp add: scan_part_def kettle_uri_def)
  have tp: "scan_part (TextPart t) None = None" for t
    by (simp add: scan_part_def)
  have e: "extractSourceImage crop_state0 = Some kettle_uri"
    by (simp add: extractSourceImage_def crop_state0_def crop_input_def scan_message_def tp p)
  have l: "crop_llmNode sample_world crop_state0 [] =
      Inr (\<lparr>messages_u = Some [crop_reply],
            sourceImageDataUri_u = Some (Some kettle_uri),
            croppedImageDataUri_u = None,
            approval_u = Some (Some \<lparr>status = pending, feedback = None\<rparr>)\<rparr>,
           [ModelInvoked (SystemMessage (Str (systemPrompt crop_state0)) # crop_input)])"
    by (simp add: crop_llmNode_def sample_world_def e) (simp add: crop_state0_def)
  have m1: "merge_crop crop_state0
        \<lparr>messages_u = Some [crop_reply],
         sourceImageDataUri_u = Some (Some kettle_uri),
         croppedImageDataUri_u = None,
         approval_u = Some (Some \<lparr>status = pending, feedback = None\<rparr>)\<rparr>
      = \<lparr>messages = crop_input @ [crop_reply], sourceImageDataUri = Some kettle_uri,
         croppedImageDataUri = None, approval = \<lparr>status = pending, feedback = None\<rparr>\<rparr>"
    by (simp add: merge_crop_llm) (simp add: crop_state0_def)
  have r1: "routeAfterLLM
        \<lparr>messages = crop_input @ [crop_reply], sourceImageDataUri = Some kettle_uri,
         croppedImageDataUri = None, approval = \<lparr>status = pending, feedback = None\<rparr>\<rparr>
      = ''toolNode''"
    by (simp add: routeAfterLLM_def at_last_def crop_reply_def has_tool_calls_def)
  have s1: "crop_step sample_world (''llmCall'', crop_state0, []) =
       Inr (''toolNode'',
            \<lparr>messages = crop_input @ [crop_reply], sourceImageDataUri = Some kettle_uri,
             croppedImageDataUri = None, approval = \<lparr>status = pending, feedback = None\<rparr>\<rparr>,
            [ModelInvoked (SystemMessage (Str (systemPrompt crop_state0)) # crop_input)])"
    by (simp add: crop_step_def END_def run_node_def next_node_def l m1 r1)
  have t: "crop_toolNode sample_world
        \<lparr>messages = crop_input @ [crop_reply], sourceImageDataUri = Some kettle_uri,
         croppedImageDataUri = None, approval = \<lparr>status = pending, feedback = None\<rparr>\<rparr>
        [ModelInvoked (SystemMessage (Str (systemPrompt crop_state0)) # crop_input)]
      = Inr (\<lparr>messages_u = Some [ToolMessage (Str ''data:image/webp;base64,UklG'') ''call_1''],
              sourceImageDataUri_u = None,
              croppedImageDataUri_u = Some (Some ''data:image/webp;base64,UklG''),
              approval_u = None\<rparr>,
             [ModelInvoked (SystemMessage (Str (systemPrompt crop_state0)) # crop_input),
              ToolNodeInvoked])"
    by (simp add: crop_toolNode_def sample_world_def startsWith_def)
  have m2: "merge_crop
        \<lparr>messages = crop_input @ [crop_reply], sourceImageDataUri = Some kettle_uri,
         croppedImageDataUri = None, approval = \<lparr>status = pending, feedback = None\<rparr>\<rparr>
        \<lparr>messages_u = Some [ToolMessage (Str ''data:image/webp;base64,UklG'') ''call_1''],
         sourceImageDataUri_u = None,
         croppedImageDataUri_u = Some (Some ''data:image/webp;base64,UklG''),
         approval_u = None\<rparr>
      = \<lparr>messages = crop_input @ [crop_reply,
               ToolMessage (Str ''data:image/webp;base64,UklG'') ''call_1''],
         sourceImageDataUri = Some kettle_uri,
         croppedImageDataUri = Some ''data:image/webp;base64,UklG'',
         approval = \<lparr>status = pending, feedback = None\<rparr>\<rparr>"
    by (simp add: merge_crop_def merge_messages_def messages_reducer_def dataUri_reducer_def
        Let_def)
  have s2: "crop_step sample_world (''toolNode'',
            \<lparr>messages = crop_input @ [crop_reply], sourceImageDataUri = Some kettle_uri,
             croppedImageDataUri = None, approval = \<lparr>status = pending, feedback = None\<rparr>\<rparr>,
            [ModelInvoked (SystemMessage (Str (systemPrompt crop_state0)) # crop_input)]) =
       Inr (''approver'',
            \<lparr>messages = crop_input @ [crop_reply,
               ToolMessage (Str ''data:image/webp;base64,UklG'') ''call_1''],
             sourceImageDataUri = Some kettle_uri,
             croppedImageDataUri = Some ''data:image/webp;base64,UklG'',
             approval = \<lparr>status = pending, feedback = None\<rparr>\<rparr>,
            [ModelInvoked (SystemMessage (Str (systemPrompt crop_state0)) # crop_input),
             ToolNodeInvoked])"
    by (simp add: crop_step_def END_def run_node_def next_node_def t m2)
  have i: "crop_invoke crop_input = (''llmCall'', crop_state0, [])"
    by (simp add: crop_invoke_def crop_state0_def)
  have run: "crop_run sample_world 2 (crop_invoke crop_input) =
       Inr (''approver'',
            \<lparr>messages = crop_input @ [crop_reply,
               ToolMessage (Str ''data:image/webp;base64,UklG'') ''call_1''],
             sourceImageDataUri = Some kettle_uri,
             croppedImageDataUri = Some ''data:image/webp;base64,UklG'',
             approval = \<lparr>status = pending, feedback = None\<rparr>\<rparr>,
            [ModelInvoked (SystemMessage (Str (systemPrompt crop_state0)) # crop_input),
             ToolNodeInvoked])"
    by (simp add: eval_nat_numeral i s1 s2)
  note T = source_image_longest [of "ImageUrlPart (Url_object (Some kettle_uri))" None
      sample_world "''llmCall''" crop_state0 "[]" "''toolNode''"
      "\<lparr>messages = crop_input @ [crop_reply], sourceImageDataUri = Some kettle_uri,
        croppedImageDataUri = None, approval = \<lparr>status = pending, feedback = None\<rparr>\<rparr>"
      "[ModelInvoked (SystemMessage (Str (systemPrompt crop_state0)) # crop_input)]"
      2 crop_input "''approver''"
      "\<lparr>messages = crop_input @ [crop_reply,
               ToolMessage (Str ''data:image/webp;base64,UklG'') ''call_1''],
             sourceImageDataUri = Some kettle_uri,
             croppedImageDataUri = Some ''data:image/webp;base64,UklG'',
             approval = \<lparr>status = pending, feedback = None\<rparr>\<rparr>"
      "[ModelInvoked (SystemMessage (Str (systemPrompt crop_state0)) # crop_input),
             ToolNodeInvoked]"]
  from T s1 have "strlen (sourceImageDataUri crop_state0)
      \<le> strlen (sourceImageDataUri
           \<lparr>messages = crop_input @ [crop_reply], sourceImageDataUri = Some kettle_uri,
            croppedImageDataUri = None, approval = \<lparr>status = pending, feedback = None\<rparr>\<rparr>)"
    by blast
  then have c: "strlen (sourceImageDataUri crop_state0) \<le> strlen (Some kettle_uri)"
    by simp
  from T run have "sourceImageDataUri
         \<lparr>messages = crop_input @ [crop_reply,
               ToolMessage (Str ''data:image/webp;base64,UklG'') ''call_1''],
             sourceImageDataUri = Some kettle_uri,
             croppedImageDataUri = Some ''data:image/webp;base64,UklG'',
             approval = \<lparr>status = pending, feedback = None\<rparr>\<rparr>
      = longest (imageUrls (seen_log
         [ModelInvoked (SystemMessage (Str (systemPrompt crop_state0)) # crop_input),
          ToolNodeInvoked]))"
    by blast
  then have d: "longest (imageUrls (seen_log
         [ModelInvoked (SystemMessage (Str (systemPrompt crop_state0)) # crop_input),
          ToolNodeInvoked])) = Some kettle_uri"
    by simp
  from p s1 run c d show ?thesis by simp
qed

end
